theory Spec2Isabelle
  imports Complex_Main
begin

section \<open>The presentation generator \<^verbatim>\<open>create_presentation.py\<close>\<close>

text \<open>
  The script builds one in-memory document through a presentation library, saves it and
  prints a summary. The library objects the script touches are modelled as plain data:
  a document is a list of slides, a slide a list of shapes, a text frame a list of
  paragraphs. The nested helper functions of \<^verbatim>\<open>create_presentation\<close> close over the
  document handle and the palette; that closure environment is the record \<open>scope\<close>,
  passed explicitly and returned updated. Every place where the script can raise
  (an index out of range, an unwritable output path) is a branch returning \<open>Inl\<close>.
\<close>

subsection \<open>Lengths, colours, errors\<close>

type_synonym emu = int

text \<open>Python's \<^verbatim>\<open>int(x)\<close> truncates towards zero.\<close>

definition py_int :: "rat \<Rightarrow> int" where
  "py_int x = (if 0 \<le> x then \<lfloor>x\<rfloor> else \<lceil>x\<rceil>)"

text \<open>
  \<^verbatim>\<open>Inches(x)\<close> is \<^verbatim>\<open>int(x * 914400)\<close> and \<^verbatim>\<open>Pt(x)\<close> is \<^verbatim>\<open>int(x * 12700)\<close>
  (English Metric Units). The arguments are decimal literals; on every literal of the
  script the product is an integer, so the rational product equals the rounded one.
\<close>

definition Inches :: "rat \<Rightarrow> emu" where
  "Inches inches = py_int (inches * 914400)"

definition Pt :: "rat \<Rightarrow> emu" where
  "Pt points = py_int (points * 12700)"

datatype RGBColor = RGBColor nat nat nat

datatype PP_ALIGN = LEFT | CENTER | RIGHT

datatype error = IndexError | OSError

text \<open>Sequencing of steps that may raise: the first error ends the run.\<close>

definition bind_err :: "error + 'a \<Rightarrow> ('a \<Rightarrow> error + 'b) \<Rightarrow> error + 'b" where
  "bind_err m f = (case m of Inl e \<Rightarrow> Inl e | Inr x \<Rightarrow> f x)"

fun collect :: "(error + 'a) list \<Rightarrow> error + 'a list" where
  "collect [] = Inr []"
| "collect (Inl e # ms) = Inl e"
| "collect (Inr x # ms) = bind_err (collect ms) (\<lambda>xs. Inr (x # xs))"

subsection \<open>Text frames\<close>

record para =
  p_text :: string
  p_level :: nat
  font_size :: "emu option"
  font_bold :: "bool option"
  font_color :: "RGBColor option"
  alignment :: "PP_ALIGN option"
  space_before :: "emu option"

definition empty_paragraph :: para where
  "empty_paragraph = \<lparr>p_text = [], p_level = 0, font_size = None, font_bold = None,
     font_color = None, alignment = None, space_before = None\<rparr>"

record text_frame =
  paragraphs :: "para list"
  word_wrap :: "bool option"

text \<open>A new text box (and a new table cell) holds one empty paragraph.\<close>

definition new_text_frame :: text_frame where
  "new_text_frame = \<lparr>paragraphs = [empty_paragraph], word_wrap = None\<rparr>"

definition add_paragraph :: "text_frame \<Rightarrow> text_frame" where
  "add_paragraph tf = tf\<lparr>paragraphs := paragraphs tf @ [empty_paragraph]\<rparr>"

text \<open>Python's \<^verbatim>\<open>s.split("\n")\<close>: never empty, \<^verbatim>\<open>"".split("\n") == [""]\<close>.\<close>

fun split_lines :: "string \<Rightarrow> string list" where
  "split_lines [] = [[]]"
| "split_lines (c # cs) =
     (if c = CHR 0x0A then [] # split_lines cs
      else (case split_lines cs of
              [] \<Rightarrow> [[c]]
            | l # ls \<Rightarrow> (c # l) # ls))"

text \<open>
  Assigning \<^verbatim>\<open>text_frame.text\<close> replaces the content of the frame by one plain
  paragraph for each line of the string.
\<close>

definition set_text :: "string \<Rightarrow> text_frame \<Rightarrow> text_frame" where
  "set_text s tf = tf\<lparr>paragraphs := map (\<lambda>l. empty_paragraph\<lparr>p_text := l\<rparr>) (split_lines s)\<rparr>"

text \<open>
  \<^verbatim>\<open>p = frame.paragraphs[i]\<close> followed by assignments to \<^verbatim>\<open>p\<close>: the
  paragraph at index \<open>i\<close> is changed in place; the index raises when out of range.
\<close>

definition with_paragraph ::
  "nat \<Rightarrow> (para \<Rightarrow> para) \<Rightarrow> text_frame \<Rightarrow> error + text_frame" where
  "with_paragraph i f tf =
     (if i < length (paragraphs tf)
      then Inr (tf\<lparr>paragraphs := (paragraphs tf)[i := f (paragraphs tf ! i)]\<rparr>)
      else Inl IndexError)"

text \<open>
  The loop \<^verbatim>\<open>for i, item in enumerate(items): if i > 0: frame.add_paragraph();
  p = frame.paragraphs[i]; p.text = item; ...\<close>, which the script writes four times
  (lines 80-88, 96-103, 110-117, 493-501) with different paragraph settings. The settings
  are the parameter \<open>body\<close>; \<open>i\<close> is the counter of \<^verbatim>\<open>enumerate\<close>.
\<close>

fun fill_paragraphs ::
  "(string \<Rightarrow> para \<Rightarrow> para) \<Rightarrow> nat \<Rightarrow> string list \<Rightarrow> text_frame \<Rightarrow> error + text_frame" where
  "fill_paragraphs body i [] tf = Inr tf"
| "fill_paragraphs body i (item # items) tf =
     bind_err (with_paragraph i (body item) (if i > 0 then add_paragraph tf else tf))
       (fill_paragraphs body (Suc i) items)"

subsection \<open>Shapes, slides, the document\<close>

datatype fill_format = Inherit | Solid RGBColor | NoFill

record line_format =
  line_fill :: fill_format
  line_width :: "emu option"

record geom =
  sh_left :: emu
  sh_top :: emu
  sh_width :: emu
  sh_height :: emu

definition at_pos :: "emu \<Rightarrow> emu \<Rightarrow> emu \<Rightarrow> emu \<Rightarrow> geom" where
  "at_pos l t w h = \<lparr>sh_left = l, sh_top = t, sh_width = w, sh_height = h\<rparr>"

record cell =
  c_frame :: text_frame
  c_fill :: fill_format

text \<open>
  A table: the column widths (\<open>None\<close> while a column still has the width the library
  gave it at creation) and the grid of cells, row by row.
\<close>

record table =
  columns :: "emu option list"
  cells :: "cell list list"

datatype shape =
    AutoShape nat geom fill_format line_format
  | TextBox geom text_frame
  | GraphicFrame geom table

record slide =
  layout :: nat
  shapes :: "shape list"

record presentation =
  slide_width :: emu
  slide_height :: emu
  slides :: "slide list"

text \<open>\<^verbatim>\<open>Presentation()\<close>: the library's default template, 10 by 7.5 inches, no slide.\<close>

definition Presentation :: presentation where
  "Presentation = \<lparr>slide_width = 9144000, slide_height = 6858000, slides = []\<rparr>"

text \<open>The variables of \<^verbatim>\<open>create_presentation\<close> that its nested functions close over.\<close>

record scope =
  prs :: presentation
  PRIMARY_COLOR :: RGBColor
  SECONDARY_COLOR :: RGBColor
  ACCENT_COLOR :: RGBColor
  LIGHT_BG :: RGBColor
  WHITE :: RGBColor

text \<open>
  \<^verbatim>\<open>prs.slides.add_slide(prs.slide_layouts[n])\<close> appends an empty slide to the document
  and returns a reference to it; the reference is the slide's index.
\<close>

definition add_slide :: "nat \<Rightarrow> scope \<Rightarrow> scope \<times> nat" where
  "add_slide n sc =
     (sc\<lparr>prs := (prs sc)\<lparr>slides := slides (prs sc) @ [\<lparr>layout = n, shapes = []\<rparr>]\<rparr>\<rparr>,
      length (slides (prs sc)))"

text \<open>
  \<^verbatim>\<open>slide.shapes.add_shape(...)\<close>, \<^verbatim>\<open>add_textbox\<close> and \<^verbatim>\<open>add_table\<close> append a shape
  to the slide behind the reference. The script configures a shape right after creating
  it and reads nothing in between, so the model appends the configured shape.
\<close>

definition put_shape :: "nat \<Rightarrow> shape \<Rightarrow> scope \<Rightarrow> scope" where
  "put_shape sid sh sc =
     sc\<lparr>prs := (prs sc)\<lparr>slides :=
       (slides (prs sc))[sid := (slides (prs sc) ! sid)\<lparr>shapes := shapes (slides (prs sc) ! sid) @ [sh]\<rparr>]\<rparr>\<rparr>"

fun put_shapes :: "nat \<Rightarrow> shape list \<Rightarrow> scope \<Rightarrow> scope" where
  "put_shapes sid [] sc = sc"
| "put_shapes sid (sh # shs) sc = put_shapes sid shs (put_shape sid sh sc)"

text \<open>
  \<^verbatim>\<open>add_shape(1, l, t, w, h)\<close> with \<^verbatim>\<open>fill.solid()\<close>, \<^verbatim>\<open>fill.fore_color.rgb = c\<close> and
  \<^verbatim>\<open>line.fill.background()\<close>: a rectangle filled with \<open>c\<close>, without outline.
\<close>

definition filled_rect :: "geom \<Rightarrow> RGBColor \<Rightarrow> shape" where
  "filled_rect g c = AutoShape 1 g (Solid c) \<lparr>line_fill = NoFill, line_width = None\<rparr>"

text \<open>
  \<^verbatim>\<open>box = add_textbox(...); frame = box.text_frame; frame.text = s;
  para = frame.paragraphs[0]; para.font... = ...\<close>: the settings \<open>f\<close> reach the first
  paragraph only. \<open>wrap\<close> is the value assigned to \<^verbatim>\<open>word_wrap\<close>, if any.
\<close>

definition text_box ::
  "geom \<Rightarrow> string \<Rightarrow> bool option \<Rightarrow> (para \<Rightarrow> para) \<Rightarrow> error + shape" where
  "text_box g s wrap f =
     bind_err (with_paragraph 0 f ((set_text s new_text_frame)\<lparr>word_wrap := wrap\<rparr>))
       (\<lambda>tf. Inr (TextBox g tf))"

text \<open>
  \<^verbatim>\<open>box = add_textbox(...); frame = box.text_frame; frame.word_wrap = True\<close> followed
  by the paragraph loop over \<open>items\<close>.
\<close>

definition list_box ::
  "geom \<Rightarrow> (string \<Rightarrow> para \<Rightarrow> para) \<Rightarrow> string list \<Rightarrow> error + shape" where
  "list_box g body items =
     bind_err (fill_paragraphs body 0 items (new_text_frame\<lparr>word_wrap := Some True\<rparr>))
       (\<lambda>tf. Inr (TextBox g tf))"

text \<open>The title bar and the title text of lines 59-72, 125-138, 307-319 and 403-415.\<close>

definition title_bar :: "scope \<Rightarrow> shape" where
  "title_bar sc = filled_rect (at_pos 0 0 (slide_width (prs sc)) (Inches 1)) (PRIMARY_COLOR sc)"

definition bar_title :: "scope \<Rightarrow> string \<Rightarrow> error + shape" where
  "bar_title sc title =
     text_box (at_pos (Inches 0.5) (Inches 0.2) (Inches 9) (Inches 0.6)) title None
       (\<lambda>p. p\<lparr>font_size := Some (Pt 36), font_bold := Some True, font_color := Some (WHITE sc)\<rparr>)"

subsection \<open>The three slide builders\<close>

definition add_title_slide :: "string \<Rightarrow> string \<Rightarrow> scope \<Rightarrow> error + scope" where
  "add_title_slide title subtitle sc =
     (case add_slide 6 sc of (sc1, slide) \<Rightarrow>
        bind_err (collect
          [Inr (filled_rect (at_pos 0 0 (slide_width (prs sc1)) (slide_height (prs sc1)))
                  (PRIMARY_COLOR sc1)),
           text_box (at_pos (Inches 1) (Inches 2.5) (Inches 8) (Inches 1)) title None
             (\<lambda>p. p\<lparr>font_size := Some (Pt 54), font_bold := Some True,
                     font_color := Some (WHITE sc1), alignment := Some CENTER\<rparr>),
           text_box (at_pos (Inches 1) (Inches 4) (Inches 8) (Inches 1)) subtitle None
             (\<lambda>p. p\<lparr>font_size := Some (Pt 28), font_color := Some (WHITE sc1),
                     alignment := Some CENTER\<rparr>)])
          (\<lambda>shs. Inr (put_shapes slide shs sc1)))"

definition bullet_body :: "scope \<Rightarrow> string \<Rightarrow> para \<Rightarrow> para" where
  "bullet_body sc item p = p\<lparr>p_text := item, p_level := 0, font_size := Some (Pt 20),
     font_color := Some (SECONDARY_COLOR sc), space_before := Some (Pt 12)\<rparr>"

definition column_body :: "scope \<Rightarrow> string \<Rightarrow> para \<Rightarrow> para" where
  "column_body sc item p = p\<lparr>p_text := item, font_size := Some (Pt 18),
     font_color := Some (SECONDARY_COLOR sc), space_before := Some (Pt 10)\<rparr>"

definition add_content_slide :: "string \<Rightarrow> string list \<Rightarrow> string \<Rightarrow> scope \<Rightarrow> error + scope" where
  "add_content_slide title content_items layout_type sc =
     (case add_slide 6 sc of (sc1, slide) \<Rightarrow>
        bind_err (collect
          ([Inr (title_bar sc1), bar_title sc1 title] @
           (if layout_type = ''bullet'' then
              [list_box (at_pos (Inches 0.8) (Inches 1.5) (Inches 8.4) (Inches 5.5))
                 (bullet_body sc1) content_items]
            else if layout_type = ''two_column'' then
              [list_box (at_pos (Inches 0.8) (Inches 1.5) (Inches 4) (Inches 5.5))
                 (column_body sc1) (take (length content_items div 2) content_items),
               list_box (at_pos (Inches 5.2) (Inches 1.5) (Inches 4) (Inches 5.5))
                 (column_body sc1) (drop (length content_items div 2) content_items)]
            else [])))
          (\<lambda>shs. Inr (put_shapes slide shs sc1)))"

definition positions :: "(emu \<times> emu) list" where
  "positions =
     [(Inches 0.8, Inches 1.5), (Inches 5.2, Inches 1.5),
      (Inches 0.8, Inches 4.2), (Inches 5.2, Inches 4.2)]"

definition box_width :: emu where "box_width = Inches 4"

definition box_height :: emu where "box_height = Inches 2.5"

text \<open>One round of the loop of lines 152-180: the three shapes of a feature at \<open>(x, y)\<close>.\<close>

definition feature_box :: "scope \<Rightarrow> emu \<times> emu \<Rightarrow> string \<times> string \<Rightarrow> (error + shape) list" where
  "feature_box sc pos feature =
     (case pos of (x, y) \<Rightarrow> case feature of (feature_title, feature_desc) \<Rightarrow>
       [Inr (AutoShape 1 (at_pos x y box_width box_height) (Solid (LIGHT_BG sc))
               \<lparr>line_fill = Solid (PRIMARY_COLOR sc), line_width = Some (Pt 2)\<rparr>),
        text_box (at_pos (x + Inches 0.2) (y + Inches 0.2) (box_width - Inches 0.4) (Inches 0.5))
          feature_title None
          (\<lambda>p. p\<lparr>font_size := Some (Pt 22), font_bold := Some True,
                  font_color := Some (PRIMARY_COLOR sc)\<rparr>),
        text_box (at_pos (x + Inches 0.2) (y + Inches 0.8) (box_width - Inches 0.4)
                    (box_height - Inches 1))
          feature_desc (Some True)
          (\<lambda>p. p\<lparr>font_size := Some (Pt 16), font_color := Some (SECONDARY_COLOR sc)\<rparr>)])"

text \<open>
  The loop itself: \<open>i\<close> is the counter of \<^verbatim>\<open>enumerate\<close>, and \<^verbatim>\<open>positions[i]\<close>
  raises when \<open>i\<close> is out of range.
\<close>

fun feature_loop :: "scope \<Rightarrow> nat \<Rightarrow> (string \<times> string) list \<Rightarrow> (error + shape) list" where
  "feature_loop sc i [] = []"
| "feature_loop sc i (feature # rest) =
     (if i < length positions
      then feature_box sc (positions ! i) feature @ feature_loop sc (Suc i) rest
      else [Inl IndexError])"

definition add_feature_slide :: "string \<Rightarrow> (string \<times> string) list \<Rightarrow> scope \<Rightarrow> error + scope" where
  "add_feature_slide title features sc =
     (case add_slide 6 sc of (sc1, slide) \<Rightarrow>
        bind_err (collect
          ([Inr (title_bar sc1), bar_title sc1 title] @ feature_loop sc1 0 (take 4 features)))
          (\<lambda>shs. Inr (put_shapes slide shs sc1)))"

subsection \<open>The comparison table (lines 321-363)\<close>

text \<open>\<^verbatim>\<open>add_table(rows, cols, ...)\<close>: a grid of empty cells.\<close>

definition add_table :: "nat \<Rightarrow> nat \<Rightarrow> table" where
  "add_table rows cols =
     \<lparr>columns = replicate cols None,
      cells = replicate rows (replicate cols \<lparr>c_frame = new_text_frame, c_fill = Inherit\<rparr>)\<rparr>"

text \<open>\<^verbatim>\<open>table.columns[k].width = w\<close>; the index raises when out of range.\<close>

definition set_column_width :: "nat \<Rightarrow> emu \<Rightarrow> table \<Rightarrow> error + table" where
  "set_column_width k w t =
     (if k < length (columns t) then Inr (t\<lparr>columns := (columns t)[k := Some w]\<rparr>)
      else Inl IndexError)"

text \<open>
  \<^verbatim>\<open>cell = table.cell(i, j)\<close> followed by assignments to \<^verbatim>\<open>cell\<close>; the lookup raises
  when the row or the column is out of range.
\<close>

definition with_cell :: "nat \<Rightarrow> nat \<Rightarrow> (cell \<Rightarrow> cell) \<Rightarrow> table \<Rightarrow> error + table" where
  "with_cell i j f t =
     (if i < length (cells t) \<and> j < length (cells t ! i)
      then Inr (t\<lparr>cells := (cells t)[i := (cells t ! i)[j := f (cells t ! i ! j)]]\<rparr>)
      else Inl IndexError)"

text \<open>The body of the inner loop, lines 343-363.\<close>

definition fill_cell :: "scope \<Rightarrow> nat \<Rightarrow> nat \<Rightarrow> string \<Rightarrow> cell \<Rightarrow> cell" where
  "fill_cell sc i j cell_text c =
     (let c1 = c\<lparr>c_frame := set_text cell_text (c_frame c)\<rparr> in
      if i = 0 then
        c1\<lparr>c_fill := Solid (PRIMARY_COLOR sc),
           c_frame := (c_frame c1)\<lparr>paragraphs :=
             map (\<lambda>p. p\<lparr>font_size := Some (Pt 18), font_bold := Some True,
                          font_color := Some (WHITE sc), alignment := Some CENTER\<rparr>)
               (paragraphs (c_frame c1))\<rparr>\<rparr>
      else
        c1\<lparr>c_fill := (if j = 0 then Solid (LIGHT_BG sc) else c_fill c1),
           c_frame := (c_frame c1)\<lparr>paragraphs :=
             map (\<lambda>p. p\<lparr>font_size := Some (Pt 16), font_color := Some (SECONDARY_COLOR sc),
                          alignment := Some CENTER\<rparr>)
               (paragraphs (c_frame c1))\<rparr>\<rparr>)"

fun fill_row :: "scope \<Rightarrow> nat \<Rightarrow> nat \<Rightarrow> string list \<Rightarrow> table \<Rightarrow> error + table" where
  "fill_row sc i j [] t = Inr t"
| "fill_row sc i j (cell_text # rest) t =
     bind_err (with_cell i j (fill_cell sc i j cell_text) t) (fill_row sc i (Suc j) rest)"

fun fill_table :: "scope \<Rightarrow> nat \<Rightarrow> string list list \<Rightarrow> table \<Rightarrow> error + table" where
  "fill_table sc i [] t = Inr t"
| "fill_table sc i (row_data # rest) t =
     bind_err (fill_row sc i 0 row_data t) (fill_table sc (Suc i) rest)"

subsection \<open>Characters outside ASCII\<close>

text \<open>
  A \<open>string\<close> is a list of bytes. The characters of the script's literals that are not
  ASCII are written as their UTF-8 bytes and named after their Unicode names.
\<close>

definition U_BULLET :: string where
  "U_BULLET = [CHR 0xE2, CHR 0x80, CHR 0xA2]"

definition U_COMBINING_ENCLOSING_KEYCAP :: string where
  "U_COMBINING_ENCLOSING_KEYCAP = [CHR 0xE2, CHR 0x83, CHR 0xA3]"

definition U_STOPWATCH :: string where
  "U_STOPWATCH = [CHR 0xE2, CHR 0x8F, CHR 0xB1]"

definition U_HIGH_VOLTAGE_SIGN :: string where
  "U_HIGH_VOLTAGE_SIGN = [CHR 0xE2, CHR 0x9A, CHR 0xA1]"

definition U_WHITE_HEAVY_CHECK_MARK :: string where
  "U_WHITE_HEAVY_CHECK_MARK = [CHR 0xE2, CHR 0x9C, CHR 0x85]"

definition U_SPARKLES :: string where
  "U_SPARKLES = [CHR 0xE2, CHR 0x9C, CHR 0xA8]"

definition U_CROSS_MARK :: string where
  "U_CROSS_MARK = [CHR 0xE2, CHR 0x9D, CHR 0x8C]"

definition U_HEAVY_PLUS_SIGN :: string where
  "U_HEAVY_PLUS_SIGN = [CHR 0xE2, CHR 0x9E, CHR 0x95]"

definition U_BLACK_LARGE_SQUARE :: string where
  "U_BLACK_LARGE_SQUARE = [CHR 0xE2, CHR 0xAC, CHR 0x9B]"

definition U_VARIATION_SELECTOR_16 :: string where
  "U_VARIATION_SELECTOR_16 = [CHR 0xEF, CHR 0xB8, CHR 0x8F]"

definition U_GRADUATION_CAP :: string where
  "U_GRADUATION_CAP = [CHR 0xF0, CHR 0x9F, CHR 0x8E, CHR 0x93]"

definition U_LEVEL_SLIDER :: string where
  "U_LEVEL_SLIDER = [CHR 0xF0, CHR 0x9F, CHR 0x8E, CHR 0x9A]"

definition U_CONTROL_KNOBS :: string where
  "U_CONTROL_KNOBS = [CHR 0xF0, CHR 0x9F, CHR 0x8E, CHR 0x9B]"

definition U_MICROPHONE :: string where
  "U_MICROPHONE = [CHR 0xF0, CHR 0x9F, CHR 0x8E, CHR 0xA4]"

definition U_ARTIST_PALETTE :: string where
  "U_ARTIST_PALETTE = [CHR 0xF0, CHR 0x9F, CHR 0x8E, CHR 0xA8]"

definition U_MUSICAL_NOTE :: string where
  "U_MUSICAL_NOTE = [CHR 0xF0, CHR 0x9F, CHR 0x8E, CHR 0xB5]"

definition U_TROPHY :: string where
  "U_TROPHY = [CHR 0xF0, CHR 0x9F, CHR 0x8F, CHR 0x86]"

definition U_BUILDING_CONSTRUCTION :: string where
  "U_BUILDING_CONSTRUCTION = [CHR 0xF0, CHR 0x9F, CHR 0x8F, CHR 0x97]"

definition U_FACTORY :: string where
  "U_FACTORY = [CHR 0xF0, CHR 0x9F, CHR 0x8F, CHR 0xAD]"

definition U_MONEY_BAG :: string where
  "U_MONEY_BAG = [CHR 0xF0, CHR 0x9F, CHR 0x92, CHR 0xB0]"

definition U_PERSONAL_COMPUTER :: string where
  "U_PERSONAL_COMPUTER = [CHR 0xF0, CHR 0x9F, CHR 0x92, CHR 0xBB]"

definition U_FLOPPY_DISK :: string where
  "U_FLOPPY_DISK = [CHR 0xF0, CHR 0x9F, CHR 0x92, CHR 0xBE]"

definition U_CHART_WITH_UPWARDS_TREND :: string where
  "U_CHART_WITH_UPWARDS_TREND = [CHR 0xF0, CHR 0x9F, CHR 0x93, CHR 0x88]"

definition U_BAR_CHART :: string where
  "U_BAR_CHART = [CHR 0xF0, CHR 0x9F, CHR 0x93, CHR 0x8A]"

definition U_TRIANGULAR_RULER :: string where
  "U_TRIANGULAR_RULER = [CHR 0xF0, CHR 0x9F, CHR 0x93, CHR 0x90]"

definition U_SATELLITE_ANTENNA :: string where
  "U_SATELLITE_ANTENNA = [CHR 0xF0, CHR 0x9F, CHR 0x93, CHR 0xA1]"

definition U_INBOX_TRAY :: string where
  "U_INBOX_TRAY = [CHR 0xF0, CHR 0x9F, CHR 0x93, CHR 0xA5]"

definition U_LOCK :: string where
  "U_LOCK = [CHR 0xF0, CHR 0x9F, CHR 0x94, CHR 0x92]"

definition U_BELL :: string where
  "U_BELL = [CHR 0xF0, CHR 0x9F, CHR 0x94, CHR 0x94]"

definition U_WRENCH :: string where
  "U_WRENCH = [CHR 0xF0, CHR 0x9F, CHR 0x94, CHR 0xA7]"

definition U_MICROSCOPE :: string where
  "U_MICROSCOPE = [CHR 0xF0, CHR 0x9F, CHR 0x94, CHR 0xAC]"

definition U_UP_POINTING_SMALL_RED_TRIANGLE :: string where
  "U_UP_POINTING_SMALL_RED_TRIANGLE = [CHR 0xF0, CHR 0x9F, CHR 0x94, CHR 0xBC]"

definition U_DOWN_POINTING_SMALL_RED_TRIANGLE :: string where
  "U_DOWN_POINTING_SMALL_RED_TRIANGLE = [CHR 0xF0, CHR 0x9F, CHR 0x94, CHR 0xBD]"

definition U_FILE_CABINET :: string where
  "U_FILE_CABINET = [CHR 0xF0, CHR 0x9F, CHR 0x97, CHR 0x84]"

definition U_ROCKET :: string where
  "U_ROCKET = [CHR 0xF0, CHR 0x9F, CHR 0x9A, CHR 0x80]"

definition U_HANDSHAKE :: string where
  "U_HANDSHAKE = [CHR 0xF0, CHR 0x9F, CHR 0xA4, CHR 0x9D]"

subsection \<open>The fourteen slides (lines 184-538)\<close>

definition slide_1 :: "scope \<Rightarrow> error + scope" where
  "slide_1 =
     add_title_slide
       ''Signal Processing Visualization Platform''
       ''Making Complex Signal Analysis Simple, Visual, and Accessible''"

definition slide_2 :: "scope \<Rightarrow> error + scope" where
  "slide_2 =
     add_content_slide
       ''The Challenge''
       [U_CROSS_MARK @ '' Complex tools with steep learning curves'',
        U_CROSS_MARK @ '' No real-time visualization of processing effects'',
        U_CROSS_MARK @ '' Difficult to experiment with different parameters'',
        U_CROSS_MARK @ '' Poor integration between generation, processing, and analysis'',
        '''',
        U_WHITE_HEAVY_CHECK_MARK @ '' Our Solution: An all-in-one platform that makes signal processing'',
        ''    visual, interactive, and accessible'']
       ''bullet''"

definition slide_3 :: "scope \<Rightarrow> error + scope" where
  "slide_3 =
     add_feature_slide
       ''Key Features''
       [(U_MUSICAL_NOTE @ '' Multi-Signal Generation'',
         ''Generate sine, square, sawtooth waves, and white noise with configurable parameters''),
        (U_HIGH_VOLTAGE_SIGN @ '' Real-Time Processing'',
         ''Apply filters and transformations with instant visual feedback''),
        (U_BAR_CHART @ '' Interactive Visualization'',
         ''Professional charting with zoom, pan, and side-by-side comparison''),
        (U_BELL @ '' Smart Event Detection'',
         ''Monitor signals with configurable thresholds and automatic event logging'')]"

definition slide_4 :: "scope \<Rightarrow> error + scope" where
  "slide_4 =
     add_content_slide
       ''Multi-Signal Generation''
       [U_MUSICAL_NOTE @ '' Sine Waves - Pure tones for testing'',
        U_BLACK_LARGE_SQUARE @ '' Square Waves - Digital signal simulation'',
        U_TRIANGULAR_RULER @ '' Sawtooth Waves - Audio synthesis'',
        U_SATELLITE_ANTENNA @ '' White Noise - System testing'',
        '''',
        ''Configure:'',
        ''  '' @ U_BULLET @ '' Frequency, amplitude, phase'',
        ''  '' @ U_BULLET @ '' Duration and sample rate'',
        ''  '' @ U_BULLET @ '' Instant parameter validation'']
       ''bullet''"

definition slide_5 :: "scope \<Rightarrow> error + scope" where
  "slide_5 =
     add_content_slide
       ''Real-Time Signal Processing''
       [U_DOWN_POINTING_SMALL_RED_TRIANGLE @ '' Low-Pass Filters'',
        ''  Remove high-frequency noise'',
        '''',
        U_UP_POINTING_SMALL_RED_TRIANGLE @ '' High-Pass Filters'',
        ''  Eliminate DC offset and low-frequency drift'',
        '''',
        U_LEVEL_SLIDER @ U_VARIATION_SELECTOR_16 @ '' Band-Pass Filters'',
        ''  Isolate specific frequency ranges'',
        '''',
        U_CHART_WITH_UPWARDS_TREND @ '' Gain Adjustment'',
        ''  Amplify or attenuate signals'',
        '''',
        U_SPARKLES @ '' See effects immediately with side-by-side comparison'']
       ''bullet''"

definition slide_6 :: "scope \<Rightarrow> error + scope" where
  "slide_6 =
     add_content_slide
       ''Enterprise-Grade Architecture''
       [U_BUILDING_CONSTRUCTION @ U_VARIATION_SELECTOR_16 @ '' Onion Architecture'',
        ''  '' @ U_BULLET @ '' Core Domain Layer - Pure business logic'',
        ''  '' @ U_BULLET @ '' Application Layer - Use case orchestration'',
        ''  '' @ U_BULLET @ '' Infrastructure Layer - Database & services'',
        ''  '' @ U_BULLET @ '' Presentation Layer - REST API + React UI'',
        '''',
        U_PERSONAL_COMPUTER @ '' Modern Technology Stack'',
        ''  '' @ U_BULLET @ '' Backend: .NET 10 with ASP.NET Core'',
        ''  '' @ U_BULLET @ '' Frontend: React 18 + TypeScript'',
        ''  '' @ U_BULLET @ '' Time-Series DB: InfluxDB (10:1 compression)'',
        ''  '' @ U_BULLET @ '' Metadata DB: MongoDB (flexible storage)'',
        ''  '' @ U_BULLET @ '' API Documentation: Swagger/OpenAPI'']
       ''bullet''"

definition slide_7 :: "scope \<Rightarrow> error + scope" where
  "slide_7 =
     add_content_slide
       ''Live Demo Flow (3 Minutes)''
       [''1'' @ U_VARIATION_SELECTOR_16 @ U_COMBINING_ENCLOSING_KEYCAP @ '' Generate a 1kHz Sine Wave (30 sec)'',
        ''   '' @ U_BULLET @ '' Show parameter panel'',
        ''   '' @ U_BULLET @ '' Click generate'',
        ''   '' @ U_BULLET @ '' Watch waveform appear instantly'',
        '''',
        ''2'' @ U_VARIATION_SELECTOR_16 @ U_COMBINING_ENCLOSING_KEYCAP @ '' Apply Low-Pass Filter at 500Hz (30 sec)'',
        ''   '' @ U_BULLET @ '' Configure filter parameters'',
        ''   '' @ U_BULLET @ '' Apply processing'',
        ''   '' @ U_BULLET @ '' See both signals side-by-side'',
        '''',
        ''3'' @ U_VARIATION_SELECTOR_16 @ U_COMBINING_ENCLOSING_KEYCAP @ '' Test Threshold Detection (20 sec)'',
        ''   '' @ U_BULLET @ '' Set threshold to 0.5'',
        ''   '' @ U_BULLET @ '' Input values and trigger events'',
        '''',
        ''4'' @ U_VARIATION_SELECTOR_16 @ U_COMBINING_ENCLOSING_KEYCAP @ '' Demonstrate Persistence (20 sec)'',
        ''   '' @ U_BULLET @ '' Show historical signal selector'']
       ''bullet''"

definition slide_8 :: "scope \<Rightarrow> error + scope" where
  "slide_8 =
     add_feature_slide
       ''Use Cases Across Industries''
       [(U_MICROSCOPE @ '' Research & Development'',
         ''Test algorithms, validate filter designs, prototype audio/RF systems''),
        (U_GRADUATION_CAP @ '' Education'',
         ''Teach signal processing concepts with interactive visual demonstrations''),
        (U_FACTORY @ '' Quality Control'',
         ''Monitor production signals, detect anomalies, analyze historical data''),
        (U_MUSICAL_NOTE @ '' Audio Engineering'',
         ''Synthesize test tones, analyze frequency response, validate filter designs'')]"

definition table_data :: "string list list" where
  "table_data =
     [[''Feature'', ''Traditional Tools'', ''Our Platform''],
      [''Learning Curve'', ''Weeks'', U_WHITE_HEAVY_CHECK_MARK @ '' Minutes''],
      [''Real-Time Feedback'', U_CROSS_MARK @ '' No'', U_WHITE_HEAVY_CHECK_MARK @ '' Instant''],
      [''Visual Comparison'', ''Manual'', U_WHITE_HEAVY_CHECK_MARK @ '' Side-by-side''],
      [''Setup Complexity'', ''High'', U_WHITE_HEAVY_CHECK_MARK @ '' One-click''],
      [''Cost'', ''$$$$'', U_WHITE_HEAVY_CHECK_MARK @ '' Local & Free''],
      [''Extensibility'', ''Limited'', U_WHITE_HEAVY_CHECK_MARK @ '' Open Architecture'']]"

definition slide_10 :: "scope \<Rightarrow> error + scope" where
  "slide_10 =
     add_content_slide
       ''Business Value''
       [''For Organizations:'',
        ''  '' @ U_CHART_WITH_UPWARDS_TREND @ '' Reduce development time by 60%'',
        ''  '' @ U_MONEY_BAG @ '' Lower training costs with intuitive UI'',
        ''  '' @ U_HANDSHAKE @ '' Better collaboration with visual results'',
        ''  '' @ U_WHITE_HEAVY_CHECK_MARK @ '' Built-in quality assurance'',
        '''',
        ''For Individuals:'',
        ''  '' @ U_ROCKET @ '' Learn faster with visual feedback'',
        ''  '' @ U_MICROSCOPE @ '' Experiment freely with instant results'',
        ''  '' @ U_TROPHY @ '' Professional-grade algorithms'',
        ''  '' @ U_LOCK @ '' Complete control - all data stays local'']
       ''bullet''"

definition slide_11 :: "scope \<Rightarrow> error + scope" where
  "slide_11 =
     add_content_slide
       ''Future Roadmap''
       [''Phase 2 Enhancements:'',
        '''',
        U_BAR_CHART @ '' Frequency-domain visualization (FFT spectrum)'',
        U_FLOPPY_DISK @ '' Export signals to CSV/JSON'',
        U_INBOX_TRAY @ '' Import real-world signal data'',
        U_CONTROL_KNOBS @ U_VARIATION_SELECTOR_16 @ '' Additional filter types (notch, all-pass)'',
        U_MICROPHONE @ '' Real-time audio input streaming'',
        U_HEAVY_PLUS_SIGN @ '' Multi-signal arithmetic operations'',
        '''',
        ''Your feedback shapes our roadmap!'']
       ''bullet''"

definition stats :: "(string \<times> string) list" where
  "stats =
     [(U_HIGH_VOLTAGE_SIGN @ '' <100ms'',
       ''Visualization Updates''),
      (U_FILE_CABINET @ U_VARIATION_SELECTOR_16 @ '' 10:1'',
       ''Data Compression''),
      (U_ARTIST_PALETTE @ '' 4 Types'',
       ''Signal Generation''),
      (U_WRENCH @ '' 4 Operations'',
       ''Signal Processing''),
      (U_BUILDING_CONSTRUCTION @ U_VARIATION_SELECTOR_16 @ '' 4 Layers'',
       ''Clean Architecture''),
      (U_WHITE_HEAVY_CHECK_MARK @ '' 100%'',
       ''Local Deployment'')]"

definition steps_text :: "string list" where
  "steps_text =
     [''1. Clone the repository'',
      ''2. Run start.ps1 (Windows)'',
      ''3. Start processing in under 60 seconds'']"

text \<open>Slide 9, built inline (lines 304-363).\<close>

definition comparison_table :: "scope \<Rightarrow> error + shape" where
  "comparison_table sc =
     bind_err (set_column_width 0 (Inches 2.5) (add_table (length table_data) 3)) (\<lambda>t0.
     bind_err (set_column_width 1 (Inches 2.75) t0) (\<lambda>t1.
     bind_err (set_column_width 2 (Inches 2.75) t1) (\<lambda>t2.
     bind_err (fill_table sc 0 table_data t2) (\<lambda>t.
     Inr (GraphicFrame (at_pos (Inches 1) (Inches 1.8) (Inches 8) (Inches 4.5)) t)))))"

definition slide_9 :: "scope \<Rightarrow> error + scope" where
  "slide_9 sc =
     (case add_slide 6 sc of (sc1, slide) \<Rightarrow>
        bind_err (collect
          [Inr (title_bar sc1), bar_title sc1 ''What Makes Us Different'', comparison_table sc1])
          (\<lambda>shs. Inr (put_shapes slide shs sc1)))"

text \<open>Slide 12, built inline (lines 400-461).\<close>

definition stat_positions :: "(emu \<times> emu) list" where
  "stat_positions =
     [(Inches 0.8, Inches 1.8), (Inches 3.7, Inches 1.8), (Inches 6.6, Inches 1.8),
      (Inches 0.8, Inches 4.3), (Inches 3.7, Inches 4.3), (Inches 6.6, Inches 4.3)]"

text \<open>One round of the loop over \<^verbatim>\<open>zip(stats, positions)\<close>.\<close>

definition stat_box :: "scope \<Rightarrow> (string \<times> string) \<times> (emu \<times> emu) \<Rightarrow> (error + shape) list" where
  "stat_box sc entry =
     (case entry of ((stat, label), (x, y)) \<Rightarrow>
       [Inr (filled_rect (at_pos x y (Inches 2.5) (Inches 2)) (ACCENT_COLOR sc)),
        text_box (at_pos x (y + Inches 0.3) (Inches 2.5) (Inches 0.8)) stat None
          (\<lambda>p. p\<lparr>font_size := Some (Pt 32), font_bold := Some True,
                  font_color := Some (WHITE sc), alignment := Some CENTER\<rparr>),
        text_box (at_pos x (y + Inches 1.2) (Inches 2.5) (Inches 0.6)) label (Some True)
          (\<lambda>p. p\<lparr>font_size := Some (Pt 16), font_color := Some (WHITE sc),
                  alignment := Some CENTER\<rparr>)])"

definition slide_12 :: "scope \<Rightarrow> error + scope" where
  "slide_12 sc =
     (case add_slide 6 sc of (sc1, slide) \<Rightarrow>
        bind_err (collect
          ([Inr (title_bar sc1), bar_title sc1 ''Quick Stats''] @
           concat (map (stat_box sc1) (zip stats stat_positions))))
          (\<lambda>shs. Inr (put_shapes slide shs sc1)))"

text \<open>Slide 13, built inline (lines 463-510).\<close>

definition step_body :: "scope \<Rightarrow> string \<Rightarrow> para \<Rightarrow> para" where
  "step_body sc step p = p\<lparr>p_text := step, font_size := Some (Pt 28),
     font_color := Some (WHITE sc), alignment := Some CENTER, space_before := Some (Pt 20)\<rparr>"

definition slide_13 :: "scope \<Rightarrow> error + scope" where
  "slide_13 sc =
     (case add_slide 6 sc of (sc1, slide) \<Rightarrow>
        bind_err (collect
          [Inr (filled_rect (at_pos 0 0 (slide_width (prs sc1)) (slide_height (prs sc1)))
                  (PRIMARY_COLOR sc1)),
           text_box (at_pos (Inches 1) (Inches 1.5) (Inches 8) (Inches 1))
             ''Ready to Transform Your Workflow?'' None
             (\<lambda>p. p\<lparr>font_size := Some (Pt 44), font_bold := Some True,
                     font_color := Some (WHITE sc1), alignment := Some CENTER\<rparr>),
           list_box (at_pos (Inches 2) (Inches 3) (Inches 6) (Inches 2.5))
             (step_body sc1) steps_text,
           text_box (at_pos (Inches 2) (Inches 6) (Inches 6) (Inches 0.8))
             (''Let's discuss how this platform can solve'' @ [CHR 0x0A] @
              ''your signal processing challenges'') None
             (\<lambda>p. p\<lparr>font_size := Some (Pt 20), font_color := Some (WHITE sc1),
                     alignment := Some CENTER\<rparr>)])
          (\<lambda>shs. Inr (put_shapes slide shs sc1)))"

text \<open>Slide 14, built inline (lines 512-538).\<close>

definition slide_14 :: "scope \<Rightarrow> error + scope" where
  "slide_14 sc =
     (case add_slide 6 sc of (sc1, slide) \<Rightarrow>
        bind_err (collect
          [Inr (filled_rect (at_pos 0 0 (slide_width (prs sc1)) (slide_height (prs sc1)))
                  (ACCENT_COLOR sc1)),
           text_box (at_pos (Inches 1) (Inches 2.5) (Inches 8) (Inches 2)) ''Thank You!'' None
             (\<lambda>p. p\<lparr>font_size := Some (Pt 72), font_bold := Some True,
                     font_color := Some (WHITE sc1), alignment := Some CENTER\<rparr>),
           text_box (at_pos (Inches 1) (Inches 4.5) (Inches 8) (Inches 1))
             ''Signal Processing Visualization Platform'' None
             (\<lambda>p. p\<lparr>font_size := Some (Pt 32), font_color := Some (WHITE sc1),
                     alignment := Some CENTER\<rparr>)])
          (\<lambda>shs. Inr (put_shapes slide shs sc1)))"

subsection \<open>The entry point\<close>

text \<open>Lines 13-22: the document with its canvas, and the palette.\<close>

definition initial_scope :: scope where
  "initial_scope =
     \<lparr>prs = Presentation\<lparr>slide_width := Inches 10, slide_height := Inches 7.5\<rparr>,
      PRIMARY_COLOR = RGBColor 0 102 204,
      SECONDARY_COLOR = RGBColor 51 51 51,
      ACCENT_COLOR = RGBColor 0 176 80,
      LIGHT_BG = RGBColor 240 248 255,
      WHITE = RGBColor 255 255 255\<rparr>"

fun run_steps :: "('s \<Rightarrow> error + 's) list \<Rightarrow> 's \<Rightarrow> error + 's" where
  "run_steps [] s = Inr s"
| "run_steps (f # fs) s = bind_err (f s) (run_steps fs)"

text \<open>Lines 13-538: everything before the save happens in memory.\<close>

definition build_slides :: "error + scope" where
  "build_slides =
     run_steps
       [slide_1, slide_2, slide_3, slide_4, slide_5, slide_6, slide_7,
        slide_8, slide_9, slide_10, slide_11, slide_12, slide_13, slide_14]
       initial_scope"

text \<open>
  What the run does to the outside: it writes files and prints lines. A \<open>world\<close> holds
  the files of the working directory (as documents, not bytes), the paths that cannot be
  written, and the trace of the effects so far, oldest first.
\<close>

datatype event = FileWrite string | StdoutLine string

record world =
  files :: "string \<Rightarrow> presentation option"
  read_only :: "string set"
  events :: "event list"

text \<open>\<^verbatim>\<open>prs.save(name)\<close> raises when the path cannot be written.\<close>

definition save :: "presentation \<Rightarrow> string \<Rightarrow> world \<Rightarrow> error + world" where
  "save p name w =
     (if name \<in> read_only w then Inl OSError
      else Inr (w\<lparr>files := (files w)(name \<mapsto> p), events := events w @ [FileWrite name]\<rparr>))"

definition print :: "string \<Rightarrow> world \<Rightarrow> error + world" where
  "print s w = Inr (w\<lparr>events := events w @ [StdoutLine s]\<rparr>)"

definition create_presentation :: "world \<Rightarrow> error + world" where
  "create_presentation w =
     bind_err build_slides (\<lambda>sc.
       run_steps
         [save (prs sc) ''Signal_Processing_Platform_Presentation.pptx'',
          print (U_WHITE_HEAVY_CHECK_MARK @
            '' Presentation created successfully: Signal_Processing_Platform_Presentation.pptx''),
          print (U_BAR_CHART @ '' Total slides: 14''),
          print (U_ARTIST_PALETTE @ '' Professional blue theme applied''),
          print (U_STOPWATCH @ U_VARIATION_SELECTOR_16 @ '' Optimized for 3-minute delivery'')]
         w)"

subsection \<open>Reading a document\<close>

text \<open>
  The functions below are not part of the script: they name what a builder leaves behind
  and read text back from a document, for the statements that follow.
\<close>

definition append_slide :: "slide \<Rightarrow> scope \<Rightarrow> scope" where
  "append_slide s sc = sc\<lparr>prs := (prs sc)\<lparr>slides := slides (prs sc) @ [s]\<rparr>\<rparr>"

text \<open>A text box whose text was assigned as a whole, with the first paragraph set by \<open>f\<close>.\<close>

definition styled_box :: "geom \<Rightarrow> string \<Rightarrow> bool option \<Rightarrow> (para \<Rightarrow> para) \<Rightarrow> shape" where
  "styled_box g s wrap f =
     TextBox g \<lparr>paragraphs =
                  f (empty_paragraph\<lparr>p_text := hd (split_lines s)\<rparr>) #
                  map (\<lambda>l. empty_paragraph\<lparr>p_text := l\<rparr>) (tl (split_lines s)),
                word_wrap = wrap\<rparr>"

text \<open>
  A text box filled item by item: one paragraph for each item, in order, and the single
  empty paragraph of a new text box when there is no item.
\<close>

definition items_box :: "geom \<Rightarrow> (string \<Rightarrow> para \<Rightarrow> para) \<Rightarrow> string list \<Rightarrow> shape" where
  "items_box g body items =
     TextBox g \<lparr>paragraphs =
                  (if items = [] then [empty_paragraph]
                   else map (\<lambda>item. body item empty_paragraph) items),
                word_wrap = Some True\<rparr>"

definition title_text :: "scope \<Rightarrow> string \<Rightarrow> shape" where
  "title_text sc title =
     styled_box (at_pos (Inches 0.5) (Inches 0.2) (Inches 9) (Inches 0.6)) title None
       (\<lambda>p. p\<lparr>font_size := Some (Pt 36), font_bold := Some True, font_color := Some (WHITE sc)\<rparr>)"

text \<open>The three shapes of one feature, as \<open>feature_box\<close> makes them.\<close>

definition feature_shapes :: "scope \<Rightarrow> emu \<times> emu \<Rightarrow> string \<times> string \<Rightarrow> shape list" where
  "feature_shapes sc pos feature =
     [AutoShape 1 (at_pos (fst pos) (snd pos) box_width box_height) (Solid (LIGHT_BG sc))
        \<lparr>line_fill = Solid (PRIMARY_COLOR sc), line_width = Some (Pt 2)\<rparr>,
      styled_box (at_pos (fst pos + Inches 0.2) (snd pos + Inches 0.2)
                    (box_width - Inches 0.4) (Inches 0.5))
        (fst feature) None
        (\<lambda>p. p\<lparr>font_size := Some (Pt 22), font_bold := Some True,
                font_color := Some (PRIMARY_COLOR sc)\<rparr>),
      styled_box (at_pos (fst pos + Inches 0.2) (snd pos + Inches 0.8)
                    (box_width - Inches 0.4) (box_height - Inches 1))
        (snd feature) (Some True)
        (\<lambda>p. p\<lparr>font_size := Some (Pt 16), font_color := Some (SECONDARY_COLOR sc)\<rparr>)]"

text \<open>Reading \<^verbatim>\<open>text_frame.text\<close>: the paragraphs' texts joined by line feeds.\<close>

fun join_lines :: "string list \<Rightarrow> string" where
  "join_lines [] = []"
| "join_lines [l] = l"
| "join_lines (l # ls) = l @ CHR 0x0A # join_lines ls"

definition frame_text :: "text_frame \<Rightarrow> string" where
  "frame_text tf = join_lines (map p_text (paragraphs tf))"

definition table_texts :: "table \<Rightarrow> string list list" where
  "table_texts t = map (map (\<lambda>c. frame_text (c_frame c))) (cells t)"

text \<open>The text of every shape, in the order of the shapes.\<close>

fun shape_texts :: "shape \<Rightarrow> string list" where
  "shape_texts (AutoShape k g f l) = []"
| "shape_texts (TextBox g tf) = [frame_text tf]"
| "shape_texts (GraphicFrame g t) = concat (table_texts t)"

definition document_texts :: "presentation \<Rightarrow> string list list list" where
  "document_texts d = map (\<lambda>s. map shape_texts (shapes s)) (slides d)"

text \<open>The texts of the paragraphs of a text box, one entry for each paragraph.\<close>

fun paragraph_texts :: "shape \<Rightarrow> string list" where
  "paragraph_texts (AutoShape k g f l) = []"
| "paragraph_texts (TextBox g tf) = map p_text (paragraphs tf)"
| "paragraph_texts (GraphicFrame g t) = []"

text \<open>The heading of a slide: on all fourteen it is the text of the second shape.\<close>

fun slide_title :: "slide \<Rightarrow> string option" where
  "slide_title s =
     (case shapes s of
        b # TextBox g tf # rest \<Rightarrow> Some (frame_text tf)
      | _ \<Rightarrow> None)"

fun the_table :: "slide \<Rightarrow> table option" where
  "the_table s =
     (case shapes s of
        [b, t, GraphicFrame g tb] \<Rightarrow> Some tb
      | _ \<Rightarrow> None)"

text \<open>
  A call changed the scope by one slide at the end and nothing else: the slides that
  were there, the canvas and the palette are as before.
\<close>

definition only_appends_one :: "scope \<Rightarrow> error + scope \<Rightarrow> bool" where
  "only_appends_one sc r =
     (case r of
        Inl e \<Rightarrow> False
      | Inr sc' \<Rightarrow>
          length (slides (prs sc')) = Suc (length (slides (prs sc))) \<and>
          butlast (slides (prs sc')) = slides (prs sc) \<and>
          slide_width (prs sc') = slide_width (prs sc) \<and>
          slide_height (prs sc') = slide_height (prs sc) \<and>
          PRIMARY_COLOR sc' = PRIMARY_COLOR sc \<and>
          SECONDARY_COLOR sc' = SECONDARY_COLOR sc \<and>
          ACCENT_COLOR sc' = ACCENT_COLOR sc \<and>
          LIGHT_BG sc' = LIGHT_BG sc \<and>
          WHITE sc' = WHITE sc)"

text \<open>The lines printed and the files written, read off the trace.\<close>

fun stdout :: "event list \<Rightarrow> string list" where
  "stdout [] = []"
| "stdout (StdoutLine s # es) = s # stdout es"
| "stdout (FileWrite n # es) = stdout es"

fun written :: "event list \<Rightarrow> string list" where
  "written [] = []"
| "written (StdoutLine s # es) = written es"
| "written (FileWrite n # es) = n # written es"

text \<open>A world with no file, no protected path and no effect yet.\<close>

definition empty_world :: world where
  "empty_world = \<lparr>files = (\<lambda>n. None), read_only = {}, events = []\<rparr>"

section \<open>Properties\<close>

subsection \<open>What the builders and the run compute\<close>

lemma split_lines_nonempty: "split_lines s \<noteq> []"
  by (induction s) (auto split: list.splits)

lemma split_lines_plain: "CHR 0x0A \<notin> set s \<Longrightarrow> split_lines s = [s]"
  by (induction s) auto

lemma fill_paragraphs_from:
  "0 < i \<Longrightarrow> length (paragraphs tf) = i \<Longrightarrow>
   fill_paragraphs body i items tf =
     Inr (tf\<lparr>paragraphs := paragraphs tf @ map (\<lambda>item. body item empty_paragraph) items\<rparr>)"
proof (induction items arbitrary: i tf)
  case Nil
  then show ?case by simp
next
  case (Cons item items)
  let ?tf1 = "add_paragraph tf"
  let ?tf2 = "?tf1\<lparr>paragraphs := (paragraphs ?tf1)[i := body item (paragraphs ?tf1 ! i)]\<rparr>"
  have step: "with_paragraph i (body item) ?tf1 = Inr ?tf2"
    using Cons.prems by (simp add: with_paragraph_def add_paragraph_def)
  have i: "i = length (paragraphs tf)"
    using Cons.prems by simp
  have ps: "paragraphs ?tf2 = paragraphs tf @ [body item empty_paragraph]"
    by (simp add: add_paragraph_def i)
  have "fill_paragraphs body (Suc i) items ?tf2 =
          Inr (?tf2\<lparr>paragraphs := paragraphs ?tf2 @ map (\<lambda>item. body item empty_paragraph) items\<rparr>)"
    by (rule Cons.IH) (use Cons.prems ps in simp_all)
  then show ?case
    using Cons.prems step ps by (simp add: bind_err_def add_paragraph_def)
qed

lemma fill_paragraphs_new:
  "length (paragraphs tf) = 1 \<Longrightarrow>
   fill_paragraphs body 0 items tf =
     Inr (tf\<lparr>paragraphs :=
       (case items of [] \<Rightarrow> paragraphs tf
        | item # rest \<Rightarrow> body item (hd (paragraphs tf)) # map (\<lambda>item. body item empty_paragraph) rest)\<rparr>)"
proof (cases items)
  case Nil
  then show ?thesis by simp
next
  case (Cons item rest)
  assume len: "length (paragraphs tf) = 1"
  then obtain p where p: "paragraphs tf = [p]"
    by (cases "paragraphs tf") auto
  let ?tf1 = "tf\<lparr>paragraphs := [body item p]\<rparr>"
  have step: "with_paragraph 0 (body item) tf = Inr ?tf1"
    using p by (simp add: with_paragraph_def)
  have "fill_paragraphs body (Suc 0) rest ?tf1 =
          Inr (?tf1\<lparr>paragraphs := paragraphs ?tf1 @ map (\<lambda>item. body item empty_paragraph) rest\<rparr>)"
    by (rule fill_paragraphs_from) simp_all
  then show ?thesis
    using Cons step p by (simp add: bind_err_def)
qed

lemma list_box_items: "list_box g body items = Inr (items_box g body items)"
  by (simp add: list_box_def items_box_def fill_paragraphs_new new_text_frame_def bind_err_def
      split: list.splits)

lemma text_box_styled: "text_box g s wrap f = Inr (styled_box g s wrap f)"
proof (cases "split_lines s")
  case Nil
  then show ?thesis using split_lines_nonempty by blast
next
  case (Cons l ls)
  then show ?thesis
    by (simp add: text_box_def styled_box_def with_paragraph_def set_text_def new_text_frame_def
        bind_err_def)
qed

lemma collect_Inr: "collect (map Inr xs) = Inr xs"
  by (induction xs) (simp_all add: bind_err_def)

lemma put_shapes_last:
  "slides (prs sc) = ss @ [s] \<Longrightarrow>
   put_shapes (length ss) shs sc =
     sc\<lparr>prs := (prs sc)\<lparr>slides := ss @ [s\<lparr>shapes := shapes s @ shs\<rparr>]\<rparr>\<rparr>"
proof (induction shs arbitrary: sc s)
  case Nil
  then show ?case by simp
next
  case (Cons sh shs)
  have "slides (prs (put_shape (length ss) sh sc)) = ss @ [s\<lparr>shapes := shapes s @ [sh]\<rparr>]"
    using Cons.prems by (simp add: put_shape_def)
  from Cons.IH [OF this] show ?case
    using Cons.prems by (simp add: put_shape_def)
qed


lemma bar_title_eq: "bar_title sc title = Inr (title_text sc title)"
  by (simp add: bar_title_def title_text_def text_box_styled)

lemma put_new_slide:
  "put_shapes (length (slides (prs sc))) shs
     (sc\<lparr>prs := (prs sc)\<lparr>slides := slides (prs sc) @ [\<lparr>layout = n, shapes = []\<rparr>]\<rparr>\<rparr>) =
   append_slide \<lparr>layout = n, shapes = shs\<rparr> sc"
  by (subst put_shapes_last [where ss = "slides (prs sc)" and s = "\<lparr>layout = n, shapes = []\<rparr>"])
     (simp_all add: append_slide_def)

lemma title_bar_prs [simp]:
  "title_bar (sc\<lparr>prs := (prs sc)\<lparr>slides := ss\<rparr>\<rparr>) = title_bar sc"
  by (simp add: title_bar_def)

lemma title_text_prs [simp]: "title_text (sc\<lparr>prs := p\<rparr>) = title_text sc"
  by (simp add: title_text_def fun_eq_iff)

lemma bullet_body_prs [simp]: "bullet_body (sc\<lparr>prs := p\<rparr>) = bullet_body sc"
  by (simp add: bullet_body_def fun_eq_iff)

lemma column_body_prs [simp]: "column_body (sc\<lparr>prs := p\<rparr>) = column_body sc"
  by (simp add: column_body_def fun_eq_iff)

lemma step_body_prs [simp]: "step_body (sc\<lparr>prs := p\<rparr>) = step_body sc"
  by (simp add: step_body_def fun_eq_iff)

lemma feature_shapes_prs [simp]: "feature_shapes (sc\<lparr>prs := p\<rparr>) = feature_shapes sc"
  by (simp add: feature_shapes_def fun_eq_iff)

lemma collect_Cons_Inr:
  "collect (Inr x # ms) = (case collect ms of Inl e \<Rightarrow> Inl e | Inr xs \<Rightarrow> Inr (x # xs))"
  by (simp add: bind_err_def)

lemma collect_append_Inr: "collect (map Inr xs @ ms) = bind_err (collect ms) (\<lambda>ys. Inr (xs @ ys))"
  by (induction xs) (simp_all add: bind_err_def split: sum.splits)

lemma add_title_slide_eq:
  "add_title_slide title subtitle sc =
     Inr (append_slide
       \<lparr>layout = 6, shapes =
          [filled_rect (at_pos 0 0 (slide_width (prs sc)) (slide_height (prs sc))) (PRIMARY_COLOR sc),
           styled_box (at_pos (Inches 1) (Inches 2.5) (Inches 8) (Inches 1)) title None
             (\<lambda>p. p\<lparr>font_size := Some (Pt 54), font_bold := Some True,
                     font_color := Some (WHITE sc), alignment := Some CENTER\<rparr>),
           styled_box (at_pos (Inches 1) (Inches 4) (Inches 8) (Inches 1)) subtitle None
             (\<lambda>p. p\<lparr>font_size := Some (Pt 28), font_color := Some (WHITE sc),
                     alignment := Some CENTER\<rparr>)]\<rparr> sc)"
  by (simp add: add_title_slide_def add_slide_def text_box_styled bind_err_def put_new_slide
      del: put_shapes.simps)

lemma add_content_slide_eq:
  "add_content_slide title content_items layout_type sc =
     Inr (append_slide
       \<lparr>layout = 6, shapes =
          [title_bar sc, title_text sc title] @
          (if layout_type = ''bullet'' then
             [items_box (at_pos (Inches 0.8) (Inches 1.5) (Inches 8.4) (Inches 5.5))
                (bullet_body sc) content_items]
           else if layout_type = ''two_column'' then
             [items_box (at_pos (Inches 0.8) (Inches 1.5) (Inches 4) (Inches 5.5))
                (column_body sc) (take (length content_items div 2) content_items),
              items_box (at_pos (Inches 5.2) (Inches 1.5) (Inches 4) (Inches 5.5))
                (column_body sc) (drop (length content_items div 2) content_items)]
           else [])\<rparr> sc)"
  by (simp add: add_content_slide_def add_slide_def bar_title_eq list_box_items bind_err_def
      put_new_slide del: put_shapes.simps)

lemma feature_box_eq: "feature_box sc pos feature = map Inr (feature_shapes sc pos feature)"
  by (simp add: feature_box_def feature_shapes_def text_box_styled split: prod.splits)

lemma feature_loop_eq:
  "i + length fs \<le> length positions \<Longrightarrow>
   feature_loop sc i fs =
     map Inr (concat (map (\<lambda>(pos, f). feature_shapes sc pos f) (zip (drop i positions) fs)))"
proof (induction fs arbitrary: i)
  case Nil
  then show ?case by simp
next
  case (Cons f fs)
  then have i: "i < length positions" by simp
  then have d: "drop i positions = positions ! i # drop (Suc i) positions"
    by (simp add: Cons_nth_drop_Suc)
  from Cons have "feature_loop sc (Suc i) fs =
      map Inr (concat (map (\<lambda>(pos, f). feature_shapes sc pos f) (zip (drop (Suc i) positions) fs)))"
    by simp
  with i d show ?case by (simp add: feature_box_eq)
qed

lemma length_positions: "length positions = 4"
  by (simp add: positions_def)

lemma add_feature_slide_eq:
  "add_feature_slide title features sc =
     Inr (append_slide
       \<lparr>layout = 6, shapes =
          [title_bar sc, title_text sc title] @
          concat (map (\<lambda>(pos, f). feature_shapes sc pos f) (zip positions features))\<rparr> sc)"
proof -
  have "zip positions (take 4 features) = zip (take 4 positions) (take 4 features)"
    by (simp add: length_positions)
  also have "\<dots> = take 4 (zip positions features)"
    by (simp add: take_zip)
  also have "\<dots> = zip positions features"
    by (simp add: length_positions)
  finally have z: "zip positions (take 4 features) = zip positions features" .
  have "feature_loop (fst (add_slide 6 sc)) 0 (take 4 features) =
      map Inr (concat (map (\<lambda>(pos, f). feature_shapes sc pos f) (zip positions features)))"
    by (subst feature_loop_eq) (simp_all add: length_positions add_slide_def z)
  then show ?thesis
    by (simp add: add_feature_slide_def add_slide_def bar_title_eq bind_err_def put_new_slide
        collect_Inr del: put_shapes.simps)
qed

lemma join_split_lines: "join_lines (split_lines s) = s"
proof (induction s)
  case Nil
  then show ?case by simp
next
  case (Cons c cs)
  obtain l ls where ls: "split_lines cs = l # ls"
    using split_lines_nonempty [of cs] by (cases "split_lines cs") auto
  with Cons show ?case
    by (cases ls) auto
qed

lemma styled_box_text:
  assumes "\<And>p. p_text (f p) = p_text p"
  shows "styled_box g s wrap f = TextBox g tf \<Longrightarrow> frame_text tf = s"
proof -
  assume eq: "styled_box g s wrap f = TextBox g tf"
  obtain l ls where ls: "split_lines s = l # ls"
    using split_lines_nonempty [of s] by (cases "split_lines s") auto
  have "map p_text (paragraphs tf) = split_lines s"
    using eq ls assms by (auto simp: styled_box_def comp_def)
  then show ?thesis
    by (simp add: frame_text_def join_split_lines)
qed

lemma slide_title_styled:
  assumes "\<And>p. p_text (f p) = p_text p"
  shows "slide_title \<lparr>layout = n, shapes = b # styled_box g s wrap f # rest\<rparr> = Some s"
proof -
  obtain tf where tf: "styled_box g s wrap f = TextBox g tf"
    by (simp add: styled_box_def)
  from styled_box_text [OF assms tf] tf show ?thesis
    by simp
qed

lemma slide_title_bar:
  "slide_title \<lparr>layout = n, shapes = b # title_text sc s # rest\<rparr> = Some s"
  unfolding title_text_def by (rule slide_title_styled) simp

lemma fill_cell_text: "frame_text (c_frame (fill_cell sc i j s c)) = s"
  by (simp add: fill_cell_def Let_def frame_text_def set_text_def comp_def join_split_lines)

lemma comparison_table_eq:
  "\<exists>t. comparison_table sc =
         Inr (GraphicFrame (at_pos (Inches 1) (Inches 1.8) (Inches 8) (Inches 4.5)) t) \<and>
       table_texts t = table_data \<and>
       map length (cells t) = [3, 3, 3, 3, 3, 3, 3] \<and>
       columns t = [Some (Inches 2.5), Some (Inches 2.75), Some (Inches 2.75)]"
  unfolding comparison_table_def table_data_def add_table_def
  by (simp add: set_column_width_def with_cell_def bind_err_def numeral_3_eq_3 table_texts_def
      fill_cell_text)

lemma title_slide_title:
  "\<exists>s. add_title_slide title subtitle sc = Inr (append_slide s sc) \<and> slide_title s = Some title"
proof -
  obtain s where s: "add_title_slide title subtitle sc = Inr (append_slide s sc)"
    "\<exists>b g f rest. s = \<lparr>layout = 6, shapes = b # styled_box g title None f # rest\<rparr> \<and>
        (\<forall>p. p_text (f p) = p_text p)"
    unfolding add_title_slide_eq by fastforce
  then obtain b g f rest where
    "s = \<lparr>layout = 6, shapes = b # styled_box g title None f # rest\<rparr>" "\<And>p. p_text (f p) = p_text p"
    by blast
  then have "slide_title s = Some title"
    using slide_title_styled [of f 6 b g title None rest] by simp
  with s(1) show ?thesis by blast
qed

lemma content_slide_title:
  "\<exists>s. add_content_slide title content_items layout_type sc = Inr (append_slide s sc) \<and>
       slide_title s = Some title"
proof -
  obtain rest where
    "add_content_slide title content_items layout_type sc =
       Inr (append_slide \<lparr>layout = 6, shapes = title_bar sc # title_text sc title # rest\<rparr> sc)"
    unfolding add_content_slide_eq by (metis append_Cons append_Nil)
  then show ?thesis
    using slide_title_bar by blast
qed

lemma feature_slide_title:
  "\<exists>s. add_feature_slide title features sc = Inr (append_slide s sc) \<and>
       slide_title s = Some title"
proof -
  obtain rest where
    "add_feature_slide title features sc =
       Inr (append_slide \<lparr>layout = 6, shapes = title_bar sc # title_text sc title # rest\<rparr> sc)"
    unfolding add_feature_slide_eq by (metis append_Cons append_Nil)
  then show ?thesis
    using slide_title_bar by blast
qed

lemma slide_9_eq:
  "\<exists>s t. slide_9 sc = Inr (append_slide s sc) \<and>
       slide_title s = Some ''What Makes Us Different'' \<and>
       the_table s = Some t \<and>
       table_texts t = table_data \<and>
       map length (cells t) = [3, 3, 3, 3, 3, 3, 3] \<and>
       columns t = [Some (Inches 2.5), Some (Inches 2.75), Some (Inches 2.75)]"
proof -
  let ?sc1 = "sc\<lparr>prs := (prs sc)\<lparr>slides := slides (prs sc) @ [\<lparr>layout = 6, shapes = []\<rparr>]\<rparr>\<rparr>"
  let ?g = "at_pos (Inches 1) (Inches 1.8) (Inches 8) (Inches 4.5)"
  from comparison_table_eq [of ?sc1] obtain t where
    t1: "comparison_table ?sc1 = Inr (GraphicFrame ?g t)" and
    t2: "table_texts t = table_data" and
    t3: "map length (cells t) = [3, 3, 3, 3, 3, 3, 3]" and
    t4: "columns t = [Some (Inches 2.5), Some (Inches 2.75), Some (Inches 2.75)]"
    by (elim exE conjE)
  let ?s = "\<lparr>layout = 6, shapes =
    [title_bar sc, title_text sc ''What Makes Us Different'', GraphicFrame ?g t]\<rparr>"
  have c: "collect [Inr (title_bar sc), Inr (title_text sc ''What Makes Us Different''),
             Inr (GraphicFrame ?g t)] =
           Inr [title_bar sc, title_text sc ''What Makes Us Different'', GraphicFrame ?g t]"
    by (simp add: bind_err_def)
  have "slide_9 sc = Inr (append_slide ?s sc)"
    unfolding slide_9_def add_slide_def prod.case bar_title_eq t1 title_bar_prs title_text_prs c
    by (simp only: bind_err_def sum.case put_new_slide)
  moreover have "slide_title ?s = Some ''What Makes Us Different''"
    by (rule slide_title_bar)
  moreover have "the_table ?s = Some t"
    by simp
  ultimately show ?thesis
    using t2 t3 t4 by (intro exI conjI)
qed

lemma stat_boxes_Inr: "\<exists>shs. concat (map (stat_box sc) es) = map Inr shs"
proof (induction es)
  case Nil
  then show ?case by simp
next
  case (Cons e es)
  then obtain shs where shs: "concat (map (stat_box sc) es) = map Inr shs"
    by blast
  obtain stat label x y where e: "e = ((stat, label), (x, y))"
    by (metis surj_pair)
  have "\<exists>a b c. stat_box sc e = map Inr [a, b, c]"
    by (simp add: e stat_box_def text_box_styled)
  then obtain a b c where "stat_box sc e = map Inr [a, b, c]"
    by blast
  with shs have "concat (map (stat_box sc) (e # es)) = map Inr ([a, b, c] @ shs)"
    by simp
  then show ?case by blast
qed



lemma slide_12_eq:
  "\<exists>s. slide_12 sc = Inr (append_slide s sc) \<and> slide_title s = Some ''Quick Stats''"
proof -
  let ?sc1 = "sc\<lparr>prs := (prs sc)\<lparr>slides := slides (prs sc) @ [\<lparr>layout = 6, shapes = []\<rparr>]\<rparr>\<rparr>"
  obtain shs where shs: "concat (map (stat_box ?sc1) (zip stats stat_positions)) = map Inr shs"
    using stat_boxes_Inr by blast
  let ?s = "\<lparr>layout = 6, shapes = title_bar sc # title_text sc ''Quick Stats'' # shs\<rparr>"
  have "slide_12 sc = Inr (append_slide ?s sc)"
    using shs
    by (simp add: slide_12_def add_slide_def bar_title_eq bind_err_def put_new_slide collect_Inr
        del: put_shapes.simps)
  moreover have "slide_title ?s = Some ''Quick Stats''"
    by (rule slide_title_bar)
  ultimately show ?thesis by (intro exI conjI)
qed



lemma slide_13_eq:
  "\<exists>s. slide_13 sc = Inr (append_slide s sc) \<and>
       slide_title s = Some ''Ready to Transform Your Workflow?''"
proof -
  let ?s = "\<lparr>layout = 6, shapes =
    [filled_rect (at_pos 0 0 (slide_width (prs sc)) (slide_height (prs sc))) (PRIMARY_COLOR sc),
     styled_box (at_pos (Inches 1) (Inches 1.5) (Inches 8) (Inches 1))
       ''Ready to Transform Your Workflow?'' None
       (\<lambda>p. p\<lparr>font_size := Some (Pt 44), font_bold := Some True,
               font_color := Some (WHITE sc), alignment := Some CENTER\<rparr>),
     items_box (at_pos (Inches 2) (Inches 3) (Inches 6) (Inches 2.5)) (step_body sc) steps_text,
     styled_box (at_pos (Inches 2) (Inches 6) (Inches 6) (Inches 0.8))
       (''Let's discuss how this platform can solve'' @ [CHR 0x0A] @
        ''your signal processing challenges'') None
       (\<lambda>p. p\<lparr>font_size := Some (Pt 20), font_color := Some (WHITE sc),
               alignment := Some CENTER\<rparr>)]\<rparr>"
  have "slide_13 sc = Inr (append_slide ?s sc)"
    by (simp add: slide_13_def add_slide_def text_box_styled list_box_items bind_err_def
        put_new_slide del: put_shapes.simps)
  moreover have "slide_title ?s = Some ''Ready to Transform Your Workflow?''"
    by (rule slide_title_styled) simp
  ultimately show ?thesis by (intro exI conjI)
qed

lemma slide_14_eq:
  "\<exists>s. slide_14 sc = Inr (append_slide s sc) \<and> slide_title s = Some ''Thank You!''"
proof -
  let ?s = "\<lparr>layout = 6, shapes =
    [filled_rect (at_pos 0 0 (slide_width (prs sc)) (slide_height (prs sc))) (ACCENT_COLOR sc),
     styled_box (at_pos (Inches 1) (Inches 2.5) (Inches 8) (Inches 2)) ''Thank You!'' None
       (\<lambda>p. p\<lparr>font_size := Some (Pt 72), font_bold := Some True,
               font_color := Some (WHITE sc), alignment := Some CENTER\<rparr>),
     styled_box (at_pos (Inches 1) (Inches 4.5) (Inches 8) (Inches 1))
       ''Signal Processing Visualization Platform'' None
       (\<lambda>p. p\<lparr>font_size := Some (Pt 32), font_color := Some (WHITE sc),
               alignment := Some CENTER\<rparr>)]\<rparr>"
  have "slide_14 sc = Inr (append_slide ?s sc)"
    by (simp add: slide_14_def add_slide_def text_box_styled bind_err_def put_new_slide
        del: put_shapes.simps)
  moreover have "slide_title ?s = Some ''Thank You!''"
    by (rule slide_title_styled) simp
  ultimately show ?thesis by (intro exI conjI)
qed

lemma run_steps_append:
  assumes "list_all2 (\<lambda>f P. \<forall>sc. \<exists>s. f sc = Inr (append_slide s sc) \<and> P s) fs Ps"
  shows "\<exists>ss. run_steps fs sc = Inr (sc\<lparr>prs := (prs sc)\<lparr>slides := slides (prs sc) @ ss\<rparr>\<rparr>) \<and>
              list_all2 (\<lambda>P s. P s) Ps ss"
  using assms
proof (induction arbitrary: sc rule: list_all2_induct)
  case Nil
  then show ?case by simp
next
  case (Cons f fs P Ps)
  then obtain s where s: "f sc = Inr (append_slide s sc)" "P s"
    by blast
  from Cons.IH [of "append_slide s sc"] obtain ss where
    ss: "run_steps fs (append_slide s sc) =
           Inr ((append_slide s sc)\<lparr>prs := (prs (append_slide s sc))
             \<lparr>slides := slides (prs (append_slide s sc)) @ ss\<rparr>\<rparr>)"
        "list_all2 (\<lambda>P s. P s) Ps ss"
    by blast
  have "run_steps (f # fs) sc =
          Inr (sc\<lparr>prs := (prs sc)\<lparr>slides := slides (prs sc) @ s # ss\<rparr>\<rparr>)"
    using s(1) ss(1) by (simp add: bind_err_def append_slide_def)
  with s(2) ss(2) show ?case
    by (intro exI [of _ "s # ss"]) simp
qed

lemma slide_2_ok: "\<exists>s. slide_2 sc = Inr (append_slide s sc) \<and> slide_title s = Some ''The Challenge''"
  unfolding slide_2_def by (rule content_slide_title)

lemma slide_3_ok: "\<exists>s. slide_3 sc = Inr (append_slide s sc) \<and> slide_title s = Some ''Key Features''"
  unfolding slide_3_def by (rule feature_slide_title)

lemma slide_4_ok:
  "\<exists>s. slide_4 sc = Inr (append_slide s sc) \<and> slide_title s = Some ''Multi-Signal Generation''"
  unfolding slide_4_def by (rule content_slide_title)

lemma slide_5_ok:
  "\<exists>s. slide_5 sc = Inr (append_slide s sc) \<and> slide_title s = Some ''Real-Time Signal Processing''"
  unfolding slide_5_def by (rule content_slide_title)

lemma slide_6_ok:
  "\<exists>s. slide_6 sc = Inr (append_slide s sc) \<and> slide_title s = Some ''Enterprise-Grade Architecture''"
  unfolding slide_6_def by (rule content_slide_title)

lemma slide_7_ok:
  "\<exists>s. slide_7 sc = Inr (append_slide s sc) \<and> slide_title s = Some ''Live Demo Flow (3 Minutes)''"
  unfolding slide_7_def by (rule content_slide_title)

lemma slide_8_ok:
  "\<exists>s. slide_8 sc = Inr (append_slide s sc) \<and> slide_title s = Some ''Use Cases Across Industries''"
  unfolding slide_8_def by (rule feature_slide_title)

lemma slide_9_ok:
  "\<exists>s. slide_9 sc = Inr (append_slide s sc) \<and>
       (slide_title s = Some ''What Makes Us Different'' \<and>
        (\<exists>t. the_table s = Some t \<and> table_texts t = table_data \<and>
             map length (cells t) = [3, 3, 3, 3, 3, 3, 3] \<and>
             columns t = [Some (Inches 2.5), Some (Inches 2.75), Some (Inches 2.75)]))"
  using slide_9_eq [of sc] by (elim exE conjE) (intro exI conjI)

lemma slide_10_ok: "\<exists>s. slide_10 sc = Inr (append_slide s sc) \<and> slide_title s = Some ''Business Value''"
  unfolding slide_10_def by (rule content_slide_title)

lemma slide_11_ok: "\<exists>s. slide_11 sc = Inr (append_slide s sc) \<and> slide_title s = Some ''Future Roadmap''"
  unfolding slide_11_def by (rule content_slide_title)

lemma build_slides_ok:
  "\<exists>ss t. build_slides = Inr (initial_scope\<lparr>prs := (prs initial_scope)\<lparr>slides := ss\<rparr>\<rparr>) \<and>
     map slide_title ss =
       [Some ''Signal Processing Visualization Platform'', Some ''The Challenge'',
        Some ''Key Features'', Some ''Multi-Signal Generation'',
        Some ''Real-Time Signal Processing'', Some ''Enterprise-Grade Architecture'',
        Some ''Live Demo Flow (3 Minutes)'', Some ''Use Cases Across Industries'',
        Some ''What Makes Us Different'', Some ''Business Value'', Some ''Future Roadmap'',
        Some ''Quick Stats'', Some ''Ready to Transform Your Workflow?'', Some ''Thank You!''] \<and>
     the_table (ss ! 8) = Some t \<and>
     table_texts t = table_data \<and>
     map length (cells t) = [3, 3, 3, 3, 3, 3, 3] \<and>
     columns t = [Some (Inches 2.5), Some (Inches 2.75), Some (Inches 2.75)]"
proof -
  let ?Ps = "[
    \<lambda>s. slide_title s = Some ''Signal Processing Visualization Platform'',
    \<lambda>s. slide_title s = Some ''The Challenge'',
    \<lambda>s. slide_title s = Some ''Key Features'',
    \<lambda>s. slide_title s = Some ''Multi-Signal Generation'',
    \<lambda>s. slide_title s = Some ''Real-Time Signal Processing'',
    \<lambda>s. slide_title s = Some ''Enterprise-Grade Architecture'',
    \<lambda>s. slide_title s = Some ''Live Demo Flow (3 Minutes)'',
    \<lambda>s. slide_title s = Some ''Use Cases Across Industries'',
    \<lambda>s. slide_title s = Some ''What Makes Us Different'' \<and>
        (\<exists>t. the_table s = Some t \<and> table_texts t = table_data \<and>
             map length (cells t) = [3, 3, 3, 3, 3, 3, 3] \<and>
             columns t = [Some (Inches 2.5), Some (Inches 2.75), Some (Inches 2.75)]),
    \<lambda>s. slide_title s = Some ''Business Value'',
    \<lambda>s. slide_title s = Some ''Future Roadmap'',
    \<lambda>s. slide_title s = Some ''Quick Stats'',
    \<lambda>s. slide_title s = Some ''Ready to Transform Your Workflow?'',
    \<lambda>s. slide_title s = Some ''Thank You!'']"
  have "list_all2 (\<lambda>f P. \<forall>sc. \<exists>s. f sc = Inr (append_slide s sc) \<and> P s)
          [slide_1, slide_2, slide_3, slide_4, slide_5, slide_6, slide_7,
           slide_8, slide_9, slide_10, slide_11, slide_12, slide_13, slide_14] ?Ps"
    unfolding slide_1_def list_all2_Cons list_all2_Nil
    by (intro conjI allI refl title_slide_title slide_2_ok slide_3_ok slide_4_ok slide_5_ok
        slide_6_ok slide_7_ok slide_8_ok slide_9_ok slide_10_ok slide_11_ok slide_12_eq
        slide_13_eq slide_14_eq)
  from run_steps_append [OF this, of initial_scope] obtain ss where
    run: "build_slides =
            Inr (initial_scope\<lparr>prs := (prs initial_scope)\<lparr>slides := slides (prs initial_scope) @ ss\<rparr>\<rparr>)"
    and all: "list_all2 (\<lambda>P s. P s) ?Ps ss"
    unfolding build_slides_def by (elim exE conjE)
  have nil: "slides (prs initial_scope) = []"
    by (simp add: initial_scope_def Presentation_def)
  from all have "map slide_title ss =
       [Some ''Signal Processing Visualization Platform'', Some ''The Challenge'',
        Some ''Key Features'', Some ''Multi-Signal Generation'',
        Some ''Real-Time Signal Processing'', Some ''Enterprise-Grade Architecture'',
        Some ''Live Demo Flow (3 Minutes)'', Some ''Use Cases Across Industries'',
        Some ''What Makes Us Different'', Some ''Business Value'', Some ''Future Roadmap'',
        Some ''Quick Stats'', Some ''Ready to Transform Your Workflow?'', Some ''Thank You!''] \<and>
     (\<exists>t. the_table (ss ! 8) = Some t \<and>
          table_texts t = table_data \<and>
          map length (cells t) = [3, 3, 3, 3, 3, 3, 3] \<and>
          columns t = [Some (Inches 2.5), Some (Inches 2.75), Some (Inches 2.75)])"
    by (clarsimp simp: list_all2_Cons1 simp del: slide_title.simps the_table.simps)
  with run nil show ?thesis
    by (elim exE conjE, intro exI [of _ ss] conjI) simp_all
qed

lemma create_presentation_eq:
  assumes "build_slides = Inr sc"
    and "''Signal_Processing_Platform_Presentation.pptx'' \<notin> read_only w"
  shows "create_presentation w =
     Inr (w\<lparr>files := (files w)(''Signal_Processing_Platform_Presentation.pptx'' \<mapsto> prs sc),
            events := events w @
              [FileWrite ''Signal_Processing_Platform_Presentation.pptx'',
               StdoutLine (U_WHITE_HEAVY_CHECK_MARK @
                 '' Presentation created successfully: Signal_Processing_Platform_Presentation.pptx''),
               StdoutLine (U_BAR_CHART @ '' Total slides: 14''),
               StdoutLine (U_ARTIST_PALETTE @ '' Professional blue theme applied''),
               StdoutLine (U_STOPWATCH @ U_VARIATION_SELECTOR_16 @
                 '' Optimized for 3-minute delivery'')]\<rparr>)"
  unfolding create_presentation_def assms(1)
  using assms(2) by (simp add: bind_err_def save_def print_def)

lemma stdout_append: "stdout (es @ fs) = stdout es @ stdout fs"
  by (induction es rule: stdout.induct) simp_all

lemma written_append: "written (es @ fs) = written es @ written fs"
  by (induction es rule: written.induct) simp_all

lemma length_zip_positions: "length (zip positions fs) = min 4 (length fs)"
  by (simp add: length_positions)

lemma zip_positions_take: "zip positions (take 4 fs) = zip positions fs"
proof -
  have "zip positions (take 4 fs) = zip (take 4 positions) (take 4 fs)"
    by (simp add: length_positions)
  also have "\<dots> = take 4 (zip positions fs)"
    by (simp add: take_zip)
  also have "\<dots> = zip positions fs"
    by (simp add: length_positions)
  finally show ?thesis .
qed

lemma length_feature_shapes:
  "length (concat (map (\<lambda>(pos, f). feature_shapes sc pos f) ps)) = 3 * length ps"
  by (induction ps) (auto simp: feature_shapes_def)

lemma positions_emu:
  "positions =
     [(731520, 1371600), (4754880, 1371600), (731520, 3840480), (4754880, 3840480)]"
  by (simp add: positions_def Inches_def py_int_def)

lemma create_presentation_run:
  assumes "build_slides = Inr sc"
    and "''Signal_Processing_Platform_Presentation.pptx'' \<notin> read_only w"
  shows "create_presentation w = Inr (projr (create_presentation w))"
    and "files (projr (create_presentation w)) =
           (files w)(''Signal_Processing_Platform_Presentation.pptx'' \<mapsto> prs sc)"
    and "events (projr (create_presentation w)) = events w @
       [FileWrite ''Signal_Processing_Platform_Presentation.pptx'',
        StdoutLine (U_WHITE_HEAVY_CHECK_MARK @
          '' Presentation created successfully: Signal_Processing_Platform_Presentation.pptx''),
        StdoutLine (U_BAR_CHART @ '' Total slides: 14''),
        StdoutLine (U_ARTIST_PALETTE @ '' Professional blue theme applied''),
        StdoutLine (U_STOPWATCH @ U_VARIATION_SELECTOR_16 @ '' Optimized for 3-minute delivery'')]"
    and "read_only (projr (create_presentation w)) = read_only w"
  unfolding create_presentation_eq [OF assms] by simp_all

lemma run_empty_world:
  "create_presentation empty_world = Inr (projr (create_presentation empty_world))"
  "events (projr (create_presentation empty_world)) =
       [FileWrite ''Signal_Processing_Platform_Presentation.pptx'',
        StdoutLine (U_WHITE_HEAVY_CHECK_MARK @
          '' Presentation created successfully: Signal_Processing_Platform_Presentation.pptx''),
        StdoutLine (U_BAR_CHART @ '' Total slides: 14''),
        StdoutLine (U_ARTIST_PALETTE @ '' Professional blue theme applied''),
        StdoutLine (U_STOPWATCH @ U_VARIATION_SELECTOR_16 @ '' Optimized for 3-minute delivery'')]"
  "read_only (projr (create_presentation empty_world)) = {}"
proof -
  from build_slides_ok obtain sc where b: "build_slides = Inr sc"
    by (elim exE conjE)
  have h: "''Signal_Processing_Platform_Presentation.pptx'' \<notin> read_only empty_world"
    by (simp add: empty_world_def)
  show "create_presentation empty_world = Inr (projr (create_presentation empty_world))"
    by (rule create_presentation_run(1) [OF b h])
  show "events (projr (create_presentation empty_world)) =
       [FileWrite ''Signal_Processing_Platform_Presentation.pptx'',
        StdoutLine (U_WHITE_HEAVY_CHECK_MARK @
          '' Presentation created successfully: Signal_Processing_Platform_Presentation.pptx''),
        StdoutLine (U_BAR_CHART @ '' Total slides: 14''),
        StdoutLine (U_ARTIST_PALETTE @ '' Professional blue theme applied''),
        StdoutLine (U_STOPWATCH @ U_VARIATION_SELECTOR_16 @ '' Optimized for 3-minute delivery'')]"
    unfolding create_presentation_run(3) [OF b h] by (simp add: empty_world_def)
  show "read_only (projr (create_presentation empty_world)) = {}"
    unfolding create_presentation_run(4) [OF b h] by (simp add: empty_world_def)
qed

subsection \<open>The claims of the specification\<close>

text \<open>
  C1. Running the entry point on a writable output path leaves a document of exactly
  fourteen slides in the output file, and their headings are, in order: the title slide,
  the challenge, the key features, signal generation, signal processing, the
  architecture, the demo flow, the use cases, the comparison table, the business value,
  the roadmap, the quick stats, the call to action and the thank-you slide.
\<close>

theorem fourteen_slides_in_order:
  assumes "''Signal_Processing_Platform_Presentation.pptx'' \<notin> read_only w"
  shows "\<exists>w' d. create_presentation w = Inr w' \<and>
     files w' ''Signal_Processing_Platform_Presentation.pptx'' = Some d \<and>
     length (slides d) = 14 \<and>
     map slide_title (slides d) =
       [Some ''Signal Processing Visualization Platform'', Some ''The Challenge'',
        Some ''Key Features'', Some ''Multi-Signal Generation'',
        Some ''Real-Time Signal Processing'', Some ''Enterprise-Grade Architecture'',
        Some ''Live Demo Flow (3 Minutes)'', Some ''Use Cases Across Industries'',
        Some ''What Makes Us Different'', Some ''Business Value'', Some ''Future Roadmap'',
        Some ''Quick Stats'', Some ''Ready to Transform Your Workflow?'', Some ''Thank You!'']"
proof -
  from build_slides_ok obtain ss where
    b: "build_slides = Inr (initial_scope\<lparr>prs := (prs initial_scope)\<lparr>slides := ss\<rparr>\<rparr>)" and
    t: "map slide_title ss =
       [Some ''Signal Processing Visualization Platform'', Some ''The Challenge'',
        Some ''Key Features'', Some ''Multi-Signal Generation'',
        Some ''Real-Time Signal Processing'', Some ''Enterprise-Grade Architecture'',
        Some ''Live Demo Flow (3 Minutes)'', Some ''Use Cases Across Industries'',
        Some ''What Makes Us Different'', Some ''Business Value'', Some ''Future Roadmap'',
        Some ''Quick Stats'', Some ''Ready to Transform Your Workflow?'', Some ''Thank You!'']"
    by (elim exE conjE)
  from arg_cong [OF t, of length] have len: "length ss = 14"
    by simp
  let ?d = "(prs initial_scope)\<lparr>slides := ss\<rparr>"
  have "files (projr (create_presentation w)) ''Signal_Processing_Platform_Presentation.pptx'' = Some ?d"
    and "create_presentation w = Inr (projr (create_presentation w))"
    unfolding create_presentation_eq [OF b assms] by simp_all
  with t len show ?thesis
    by (intro exI [of _ "projr (create_presentation w)"] exI [of _ ?d] conjI) simp_all
qed

theorem fourteen_slides_in_order_witness:
  "''Signal_Processing_Platform_Presentation.pptx'' \<notin> read_only empty_world \<and>
   (\<exists>w' d. create_presentation empty_world = Inr w' \<and>
     files w' ''Signal_Processing_Platform_Presentation.pptx'' = Some d \<and>
     length (slides d) = 14 \<and>
     map slide_title (slides d) =
       [Some ''Signal Processing Visualization Platform'', Some ''The Challenge'',
        Some ''Key Features'', Some ''Multi-Signal Generation'',
        Some ''Real-Time Signal Processing'', Some ''Enterprise-Grade Architecture'',
        Some ''Live Demo Flow (3 Minutes)'', Some ''Use Cases Across Industries'',
        Some ''What Makes Us Different'', Some ''Business Value'', Some ''Future Roadmap'',
        Some ''Quick Stats'', Some ''Ready to Transform Your Workflow?'', Some ''Thank You!''])"
proof -
  have h: "''Signal_Processing_Platform_Presentation.pptx'' \<notin> read_only empty_world"
    by (simp add: empty_world_def)
  from h fourteen_slides_in_order [OF h] show ?thesis
    by (rule conjI)
qed

text \<open>
  C2. In two-column mode the content-slide builder puts the first \<open>N div 2\<close> of its
  \<open>N\<close> items, in order, into the left text box and the other \<open>N - N div 2\<close>, in order,
  into the right text box, each item as a paragraph of its own; a side without an item
  keeps the empty paragraph of a new text box. Seven items give three paragraphs on the
  left and four on the right.
\<close>

theorem two_column_split:
  "add_content_slide title content_items ''two_column'' sc =
     Inr (append_slide
       \<lparr>layout = 6, shapes =
          [title_bar sc, title_text sc title,
           items_box (at_pos (Inches 0.8) (Inches 1.5) (Inches 4) (Inches 5.5))
             (column_body sc) (take (length content_items div 2) content_items),
           items_box (at_pos (Inches 5.2) (Inches 1.5) (Inches 4) (Inches 5.5))
             (column_body sc) (drop (length content_items div 2) content_items)]\<rparr> sc) \<and>
   length (take (length content_items div 2) content_items) = length content_items div 2 \<and>
   length (drop (length content_items div 2) content_items) =
     length content_items - length content_items div 2 \<and>
   take (length content_items div 2) content_items @
     drop (length content_items div 2) content_items = content_items \<and>
   paragraph_texts
     (items_box (at_pos (Inches 0.8) (Inches 1.5) (Inches 4) (Inches 5.5))
        (column_body sc) (take (length content_items div 2) content_items)) =
     (if take (length content_items div 2) content_items = [] then [[]]
      else take (length content_items div 2) content_items) \<and>
   paragraph_texts
     (items_box (at_pos (Inches 5.2) (Inches 1.5) (Inches 4) (Inches 5.5))
        (column_body sc) (drop (length content_items div 2) content_items)) =
     (if drop (length content_items div 2) content_items = [] then [[]]
      else drop (length content_items div 2) content_items) \<and>
   (length content_items = 7 \<longrightarrow>
      length (take (length content_items div 2) content_items) = 3 \<and>
      length (drop (length content_items div 2) content_items) = 4)"
proof -
  have "paragraph_texts (items_box g (column_body sc) xs) = (if xs = [] then [[]] else xs)"
    for g xs
    by (simp add: items_box_def column_body_def empty_paragraph_def comp_def)
  then show ?thesis
    unfolding add_content_slide_eq by simp
qed

theorem two_column_split_witness:
  "add_content_slide ''T'' [''a'', ''b'', ''c'', ''d'', ''e'', ''f'', ''g''] ''two_column''
     initial_scope =
     Inr (append_slide
       \<lparr>layout = 6, shapes =
          [title_bar initial_scope, title_text initial_scope ''T'',
           items_box (at_pos (Inches 0.8) (Inches 1.5) (Inches 4) (Inches 5.5))
             (column_body initial_scope) [''a'', ''b'', ''c''],
           items_box (at_pos (Inches 5.2) (Inches 1.5) (Inches 4) (Inches 5.5))
             (column_body initial_scope) [''d'', ''e'', ''f'', ''g'']]\<rparr> initial_scope) \<and>
   paragraph_texts
     (items_box (at_pos (Inches 0.8) (Inches 1.5) (Inches 4) (Inches 5.5))
        (column_body initial_scope) [''a'', ''b'', ''c'']) = [''a'', ''b'', ''c''] \<and>
   paragraph_texts
     (items_box (at_pos (Inches 5.2) (Inches 1.5) (Inches 4) (Inches 5.5))
        (column_body initial_scope) [''d'', ''e'', ''f'', ''g'']) = [''d'', ''e'', ''f'', ''g''] \<and>
   length [''a'', ''b'', ''c'', ''d'', ''e'', ''f'', ''g''] = 7 \<and>
   length (take (length [''a'', ''b'', ''c'', ''d'', ''e'', ''f'', ''g''] div 2)
     [''a'', ''b'', ''c'', ''d'', ''e'', ''f'', ''g'']) = 3 \<and>
   length (drop (length [''a'', ''b'', ''c'', ''d'', ''e'', ''f'', ''g''] div 2)
     [''a'', ''b'', ''c'', ''d'', ''e'', ''f'', ''g'']) = 4"
  using two_column_split [of "''T''" "[''a'', ''b'', ''c'', ''d'', ''e'', ''f'', ''g'']" initial_scope]
  by simp

text \<open>
  C3. The feature-grid builder makes feature boxes for the first four pairs only, at the
  grid positions top-left, top-right, bottom-left, bottom-right in that order; further
  pairs change nothing, and \<open>k < 4\<close> pairs give \<open>k\<close> boxes at the first \<open>k\<close> positions
  and no shape for the others.
\<close>

theorem feature_grid_first_four:
  "add_feature_slide title features sc =
     Inr (append_slide
       \<lparr>layout = 6, shapes =
          [title_bar sc, title_text sc title] @
          concat (map (\<lambda>(pos, f). feature_shapes sc pos f) (zip positions (take 4 features)))\<rparr>
       sc) \<and>
   length (zip positions (take 4 features)) = min 4 (length features) \<and>
   map fst (zip positions (take 4 features)) = take (length features) positions \<and>
   map snd (zip positions (take 4 features)) = take 4 features \<and>
   length (concat (map (\<lambda>(pos, f). feature_shapes sc pos f) (zip positions (take 4 features)))) =
     3 * min 4 (length features) \<and>
   add_feature_slide title features sc = add_feature_slide title (take 4 features) sc \<and>
   positions =
     [(731520, 1371600), (4754880, 1371600), (731520, 3840480), (4754880, 3840480)]"
proof -
  have "map fst (zip positions features) = take (length features) positions"
    by (simp add: map_fst_zip_take min_def)
  moreover have "map snd (zip positions features) = take 4 features"
    by (simp add: map_snd_zip_take length_positions min_def)
  ultimately show ?thesis
    unfolding add_feature_slide_eq zip_positions_take length_feature_shapes length_zip_positions
    using positions_emu by (intro conjI) simp_all
qed

text \<open>
  C4. The ninth slide, headed "What Makes Us Different", holds a table of exactly seven
  rows of three cells each, with three columns; the texts of row 0 are "Feature",
  "Traditional Tools", "Our Platform", and those of row 1 are "Learning Curve", "Weeks"
  and the check mark followed by " Minutes".
\<close>

theorem comparison_table_rows:
  "\<exists>sc t. build_slides = Inr sc \<and>
     slide_title (slides (prs sc) ! 8) = Some ''What Makes Us Different'' \<and>
     the_table (slides (prs sc) ! 8) = Some t \<and>
     length (cells t) = 7 \<and>
     map length (cells t) = [3, 3, 3, 3, 3, 3, 3] \<and>
     length (columns t) = 3 \<and>
     table_texts t ! 0 = [''Feature'', ''Traditional Tools'', ''Our Platform''] \<and>
     table_texts t ! 1 = [''Learning Curve'', ''Weeks'', U_WHITE_HEAVY_CHECK_MARK @ '' Minutes'']"
proof -
  from build_slides_ok obtain ss t where
    b: "build_slides = Inr (initial_scope\<lparr>prs := (prs initial_scope)\<lparr>slides := ss\<rparr>\<rparr>)" and
    ti: "map slide_title ss =
       [Some ''Signal Processing Visualization Platform'', Some ''The Challenge'',
        Some ''Key Features'', Some ''Multi-Signal Generation'',
        Some ''Real-Time Signal Processing'', Some ''Enterprise-Grade Architecture'',
        Some ''Live Demo Flow (3 Minutes)'', Some ''Use Cases Across Industries'',
        Some ''What Makes Us Different'', Some ''Business Value'', Some ''Future Roadmap'',
        Some ''Quick Stats'', Some ''Ready to Transform Your Workflow?'', Some ''Thank You!'']" and
    t: "the_table (ss ! 8) = Some t" "table_texts t = table_data"
      "map length (cells t) = [3, 3, 3, 3, 3, 3, 3]"
      "columns t = [Some (Inches 2.5), Some (Inches 2.75), Some (Inches 2.75)]"
    by (elim exE conjE)
  from arg_cong [OF ti, of length] have "8 < length ss"
    by simp
  then have "slide_title (ss ! 8) = map slide_title ss ! 8"
    by (simp only: nth_map)
  then have title: "slide_title (ss ! 8) = Some ''What Makes Us Different''"
    unfolding ti by simp
  from arg_cong [OF t(3), of length] have rows: "length (cells t) = 7"
    by simp
  have r0: "table_texts t ! 0 = [''Feature'', ''Traditional Tools'', ''Our Platform'']"
    and r1: "table_texts t ! 1 =
      [''Learning Curve'', ''Weeks'', U_WHITE_HEAVY_CHECK_MARK @ '' Minutes'']"
    unfolding t(2) table_data_def by simp_all
  let ?sc = "initial_scope\<lparr>prs := (prs initial_scope)\<lparr>slides := ss\<rparr>\<rparr>"
  have "slides (prs ?sc) = ss"
    by simp
  with b title t(1) rows t(3) t(4) r0 r1 show ?thesis
    by (intro exI [of _ ?sc] exI [of _ t] conjI) simp_all
qed

text \<open>
  C5, as amended. After a successful save the program prints exactly four fixed lines:
  the confirmation with the file name, the slide total, the theme line and the delivery
  line, in this order.
\<close>

theorem four_confirmation_lines:
  assumes "''Signal_Processing_Platform_Presentation.pptx'' \<notin> read_only w"
  shows "\<exists>w'. create_presentation w = Inr w' \<and>
     stdout (events w') = stdout (events w) @
       [U_WHITE_HEAVY_CHECK_MARK @
          '' Presentation created successfully: Signal_Processing_Platform_Presentation.pptx'',
        U_BAR_CHART @ '' Total slides: 14'',
        U_ARTIST_PALETTE @ '' Professional blue theme applied'',
        U_STOPWATCH @ U_VARIATION_SELECTOR_16 @ '' Optimized for 3-minute delivery''] \<and>
     length (stdout (events w')) = length (stdout (events w)) + 4"
proof -
  from build_slides_ok obtain sc where b: "build_slides = Inr sc"
    by (elim exE conjE)
  note run = create_presentation_run [OF b assms]
  show ?thesis
    by (intro exI [of _ "projr (create_presentation w)"] conjI run(1))
      (simp_all add: run(3) stdout_append)
qed

theorem four_confirmation_lines_witness:
  "''Signal_Processing_Platform_Presentation.pptx'' \<notin> read_only empty_world \<and>
   (\<exists>w'. create_presentation empty_world = Inr w' \<and>
     stdout (events w') =
       [U_WHITE_HEAVY_CHECK_MARK @
          '' Presentation created successfully: Signal_Processing_Platform_Presentation.pptx'',
        U_BAR_CHART @ '' Total slides: 14'',
        U_ARTIST_PALETTE @ '' Professional blue theme applied'',
        U_STOPWATCH @ U_VARIATION_SELECTOR_16 @ '' Optimized for 3-minute delivery''] \<and>
     length (stdout (events w')) = 4)"
proof -
  have h: "''Signal_Processing_Platform_Presentation.pptx'' \<notin> read_only empty_world"
    by (simp add: empty_world_def)
  have e: "stdout (events empty_world) = []"
    by (simp add: empty_world_def)
  from four_confirmation_lines [OF h] show ?thesis
    unfolding e using h by simp
qed

text \<open>
  C5 as stated fails: a run that saves successfully prints four lines, not three.
\<close>

theorem three_lines_counterexample:
  "\<not> isl (create_presentation empty_world) \<and>
   length (stdout (events (projr (create_presentation empty_world)))) = 4 \<and>
   length (stdout (events (projr (create_presentation empty_world)))) \<noteq> 3"
proof -
  have "\<not> isl (create_presentation empty_world)"
    by (subst run_empty_world(1)) simp
  then show ?thesis
    by (simp add: run_empty_world(2))
qed

text \<open>
  C6, as amended. With an empty item list in bullet mode the content-slide builder
  raises no error and appends one slide that holds the title bar, the title text and the
  body text box; the body text box is there, with word wrap on, and holds no text: its
  only paragraph is the empty one of a new text box.
\<close>

theorem empty_bullet_slide:
  "add_content_slide title [] ''bullet'' sc =
     Inr (append_slide
       \<lparr>layout = 6, shapes =
          [title_bar sc, title_text sc title,
           TextBox (at_pos (Inches 0.8) (Inches 1.5) (Inches 8.4) (Inches 5.5))
             \<lparr>paragraphs = [empty_paragraph], word_wrap = Some True\<rparr>]\<rparr> sc) \<and>
   frame_text \<lparr>paragraphs = [empty_paragraph], word_wrap = Some True\<rparr> = []"
  unfolding add_content_slide_eq
  by (simp add: items_box_def frame_text_def empty_paragraph_def)

text \<open>
  C6 as stated fails: the slide that an empty bullet list gives does not consist of the
  title bar and the title text alone, it has a third shape.
\<close>

theorem empty_bullet_counterexample:
  "add_content_slide ''T'' [] ''bullet'' initial_scope \<noteq>
     Inr (append_slide
       \<lparr>layout = 6, shapes = [title_bar initial_scope, title_text initial_scope ''T'']\<rparr>
       initial_scope) \<and>
   \<not> isl (add_content_slide ''T'' [] ''bullet'' initial_scope) \<and>
   length (shapes (last (slides (prs (projr
     (add_content_slide ''T'' [] ''bullet'' initial_scope)))))) = 3"
  unfolding add_content_slide_eq
  by (simp add: append_slide_def initial_scope_def Presentation_def)

text \<open>
  C7, as amended. On a writable path the program writes the output file exactly once,
  under the name \<^verbatim>\<open>Signal_Processing_Platform_Presentation.pptx\<close>, after all fourteen
  slides are built; the file then holds that document. The write is the first effect of
  the run, not the last: the four printed lines follow it, and nothing else does.
\<close>

theorem save_once_then_prints:
  assumes "''Signal_Processing_Platform_Presentation.pptx'' \<notin> read_only w"
  shows "\<exists>w' sc. build_slides = Inr sc \<and> length (slides (prs sc)) = 14 \<and>
     create_presentation w = Inr w' \<and>
     files w' = (files w)(''Signal_Processing_Platform_Presentation.pptx'' \<mapsto> prs sc) \<and>
     written (events w') = written (events w) @ [''Signal_Processing_Platform_Presentation.pptx''] \<and>
     events w' = events w @
       [FileWrite ''Signal_Processing_Platform_Presentation.pptx'',
        StdoutLine (U_WHITE_HEAVY_CHECK_MARK @
          '' Presentation created successfully: Signal_Processing_Platform_Presentation.pptx''),
        StdoutLine (U_BAR_CHART @ '' Total slides: 14''),
        StdoutLine (U_ARTIST_PALETTE @ '' Professional blue theme applied''),
        StdoutLine (U_STOPWATCH @ U_VARIATION_SELECTOR_16 @ '' Optimized for 3-minute delivery'')]"
proof -
  from build_slides_ok obtain ss where
    b: "build_slides = Inr (initial_scope\<lparr>prs := (prs initial_scope)\<lparr>slides := ss\<rparr>\<rparr>)" and
    ti: "map slide_title ss =
       [Some ''Signal Processing Visualization Platform'', Some ''The Challenge'',
        Some ''Key Features'', Some ''Multi-Signal Generation'',
        Some ''Real-Time Signal Processing'', Some ''Enterprise-Grade Architecture'',
        Some ''Live Demo Flow (3 Minutes)'', Some ''Use Cases Across Industries'',
        Some ''What Makes Us Different'', Some ''Business Value'', Some ''Future Roadmap'',
        Some ''Quick Stats'', Some ''Ready to Transform Your Workflow?'', Some ''Thank You!'']"
    by (elim exE conjE)
  from arg_cong [OF ti, of length] have len: "length ss = 14"
    by simp
  let ?sc = "initial_scope\<lparr>prs := (prs initial_scope)\<lparr>slides := ss\<rparr>\<rparr>"
  have l: "length (slides (prs ?sc)) = 14"
    using len by simp
  note run = create_presentation_run [OF b assms]
  show ?thesis
    by (intro exI [of _ "projr (create_presentation w)"] exI [of _ ?sc] conjI b l run(1) run(2))
      (simp_all add: run(3) written_append)
qed

theorem save_once_then_prints_witness:
  "''Signal_Processing_Platform_Presentation.pptx'' \<notin> read_only empty_world \<and>
   (\<exists>w' sc. build_slides = Inr sc \<and> length (slides (prs sc)) = 14 \<and>
     create_presentation empty_world = Inr w' \<and>
     files w' = (files empty_world)(''Signal_Processing_Platform_Presentation.pptx'' \<mapsto> prs sc) \<and>
     written (events w') = [''Signal_Processing_Platform_Presentation.pptx''] \<and>
     events w' =
       [FileWrite ''Signal_Processing_Platform_Presentation.pptx'',
        StdoutLine (U_WHITE_HEAVY_CHECK_MARK @
          '' Presentation created successfully: Signal_Processing_Platform_Presentation.pptx''),
        StdoutLine (U_BAR_CHART @ '' Total slides: 14''),
        StdoutLine (U_ARTIST_PALETTE @ '' Professional blue theme applied''),
        StdoutLine (U_STOPWATCH @ U_VARIATION_SELECTOR_16 @ '' Optimized for 3-minute delivery'')])"
proof -
  have h: "''Signal_Processing_Platform_Presentation.pptx'' \<notin> read_only empty_world"
    by (simp add: empty_world_def)
  have e: "events empty_world = []"
    by (simp add: empty_world_def)
  from save_once_then_prints [OF h] show ?thesis
    unfolding e using h by simp
qed

text \<open>
  C7 as stated fails: the write of the output file is not the last action of the run;
  the last action is the printing of the delivery line.
\<close>

theorem save_last_counterexample:
  "\<not> isl (create_presentation empty_world) \<and>
   last (events (projr (create_presentation empty_world))) \<noteq>
     FileWrite ''Signal_Processing_Platform_Presentation.pptx'' \<and>
   last (events (projr (create_presentation empty_world))) =
     StdoutLine (U_STOPWATCH @ U_VARIATION_SELECTOR_16 @ '' Optimized for 3-minute delivery'')"
proof -
  have "\<not> isl (create_presentation empty_world)"
    by (subst run_empty_world(1)) simp
  then show ?thesis
    by (simp add: run_empty_world(2))
qed

text \<open>
  C8. Two runs, from any two states of the working directory in which the output path
  can be written, leave the same document in the output file: the same number of slides
  and the same text in every shape. This covers a second run in the directory the first
  run left behind.
\<close>

theorem same_content_every_run:
  assumes "''Signal_Processing_Platform_Presentation.pptx'' \<notin> read_only w1"
    and "''Signal_Processing_Platform_Presentation.pptx'' \<notin> read_only w2"
  shows "\<exists>w1' w2' d1 d2.
     create_presentation w1 = Inr w1' \<and> create_presentation w2 = Inr w2' \<and>
     files w1' ''Signal_Processing_Platform_Presentation.pptx'' = Some d1 \<and>
     files w2' ''Signal_Processing_Platform_Presentation.pptx'' = Some d2 \<and>
     length (slides d1) = length (slides d2) \<and>
     document_texts d1 = document_texts d2 \<and>
     d1 = d2 \<and>
     read_only w1' = read_only w1"
proof -
  from build_slides_ok obtain sc where b: "build_slides = Inr sc"
    by (elim exE conjE)
  note run1 = create_presentation_run [OF b assms(1)]
  note run2 = create_presentation_run [OF b assms(2)]
  show ?thesis
    by (intro exI [of _ "projr (create_presentation w1)"] exI [of _ "projr (create_presentation w2)"]
        exI [of _ "prs sc"] conjI run1(1) run2(1) run1(4))
      (simp_all add: run1(2) run2(2))
qed

theorem same_content_every_run_witness:
  "''Signal_Processing_Platform_Presentation.pptx'' \<notin> read_only empty_world \<and>
   ''Signal_Processing_Platform_Presentation.pptx'' \<notin>
      read_only (projr (create_presentation empty_world)) \<and>
   (\<exists>w1' w2' d1 d2.
     create_presentation empty_world = Inr w1' \<and>
     create_presentation (projr (create_presentation empty_world)) = Inr w2' \<and>
     files w1' ''Signal_Processing_Platform_Presentation.pptx'' = Some d1 \<and>
     files w2' ''Signal_Processing_Platform_Presentation.pptx'' = Some d2 \<and>
     length (slides d1) = length (slides d2) \<and>
     document_texts d1 = document_texts d2 \<and>
     d1 = d2 \<and>
     read_only w1' = read_only empty_world)"
proof -
  have h1: "''Signal_Processing_Platform_Presentation.pptx'' \<notin> read_only empty_world"
    by (simp add: empty_world_def)
  have h2: "''Signal_Processing_Platform_Presentation.pptx'' \<notin>
      read_only (projr (create_presentation empty_world))"
    by (simp add: run_empty_world(3))
  from h1 h2 same_content_every_run [OF h1 h2] show ?thesis
    by (intro conjI)
qed

text \<open>
  C9. Each of the three builders succeeds and changes the scope by exactly one slide at
  the end: the slides made before (with their shapes, positions and sizes), the canvas
  width and height and the five palette colours are as they were.
\<close>

theorem builders_only_append:
  "only_appends_one sc (add_title_slide title subtitle sc) \<and>
   only_appends_one sc (add_content_slide title content_items layout_type sc) \<and>
   only_appends_one sc (add_feature_slide title features sc)"
  unfolding add_title_slide_eq add_content_slide_eq add_feature_slide_eq
  by (simp add: only_appends_one_def append_slide_def)

text \<open>
  C10. With a layout type other than \<^verbatim>\<open>"bullet"\<close> and \<^verbatim>\<open>"two_column"\<close> the
  content-slide builder raises no error and appends a slide that holds the title bar and
  the title text box and nothing else, whatever the items.
\<close>

theorem other_layout_title_only:
  assumes "layout_type \<noteq> ''bullet''" and "layout_type \<noteq> ''two_column''"
  shows "add_content_slide title content_items layout_type sc =
     Inr (append_slide \<lparr>layout = 6, shapes = [title_bar sc, title_text sc title]\<rparr> sc)"
  unfolding add_content_slide_eq using assms by simp

theorem other_layout_title_only_witness:
  "''grid'' \<noteq> ''bullet'' \<and> ''grid'' \<noteq> ''two_column'' \<and>
   add_content_slide ''T'' [''a'', ''b''] ''grid'' initial_scope =
     Inr (append_slide
       \<lparr>layout = 6, shapes = [title_bar initial_scope, title_text initial_scope ''T'']\<rparr>
       initial_scope)"
  using other_layout_title_only [of "''grid''" "''T''" "[''a'', ''b'']" initial_scope]
  by simp

end
